theory Spec2Isabelle
  imports Complex_Main
begin

section \<open>Python strings\<close>

text \<open>
  Strings are lists of characters. The model covers ASCII text: \<open>upper\<close> maps
  \<open>a..z\<close> to \<open>A..Z\<close> and leaves every other character alone, the regular
  expression classes \<open>\d\<close>, \<open>\s\<close> and \<open>\w\<close> are their ASCII members
  (for \<open>\s\<close> and \<open>strip\<close> these are the codes 9-13, 28-31 and 32).
\<close>

definition is_digit :: "char \<Rightarrow> bool" where
  "is_digit c = (c \<in> set ''0123456789'')"

definition is_upper :: "char \<Rightarrow> bool" where
  "is_upper c = (c \<in> set ''ABCDEFGHIJKLMNOPQRSTUVWXYZ'')"

definition is_lower :: "char \<Rightarrow> bool" where
  "is_lower c = (c \<in> set ''abcdefghijklmnopqrstuvwxyz'')"

definition is_space :: "char \<Rightarrow> bool" where
  "is_space c = (c \<in> set [CHR 0x09, CHR 0x0A, CHR 0x0B, CHR 0x0C, CHR 0x0D,
                             CHR 0x1C, CHR 0x1D, CHR 0x1E, CHR 0x1F, CHR '' ''])"

definition is_word :: "char \<Rightarrow> bool" where
  "is_word c = (is_digit c \<or> is_upper c \<or> is_lower c \<or> c = CHR ''_'')"

definition upper_char :: "char \<Rightarrow> char" where
  "upper_char c =
     (case map_of (zip ''abcdefghijklmnopqrstuvwxyz'' ''ABCDEFGHIJKLMNOPQRSTUVWXYZ'') c of
        Some u \<Rightarrow> u
      | None \<Rightarrow> c)"

definition upper :: "string \<Rightarrow> string" where
  "upper s = map upper_char s"

definition strip :: "string \<Rightarrow> string" where
  "strip s = rev (dropWhile is_space (rev (dropWhile is_space s)))"

fun startswith :: "string \<Rightarrow> string \<Rightarrow> bool" where
  "startswith s [] = True"
| "startswith [] (p # ps) = False"
| "startswith (c # cs) (p # ps) = (c = p \<and> startswith cs ps)"

text \<open>\<open>is_in sub s\<close> is Python's \<open>sub in s\<close>.\<close>

fun is_in :: "string \<Rightarrow> string \<Rightarrow> bool" where
  "is_in sub [] = (sub = [])"
| "is_in sub (c # cs) = (startswith (c # cs) sub \<or> is_in sub cs)"

text \<open>\<open>replace_char old new s\<close> is \<open>s.replace(old, new)\<close> for one-character strings.\<close>

definition replace_char :: "char \<Rightarrow> char \<Rightarrow> string \<Rightarrow> string" where
  "replace_char old new s = map (\<lambda>c. if c = old then new else c) s"

text \<open>\<open>int(s)\<close> of a string of decimal digits, and \<open>str(n)\<close> of a natural number.\<close>

definition digit_val :: "char \<Rightarrow> nat" where
  "digit_val c = (case map_of (zip ''0123456789'' [0, 1, 2, 3, 4, 5, 6, 7, 8, 9]) c of
                    Some d \<Rightarrow> d
                  | None \<Rightarrow> 0)"

definition int_of_digits :: "string \<Rightarrow> nat" where
  "int_of_digits s = foldl (\<lambda>acc c. 10 * acc + digit_val c) 0 s"

definition digit_char :: "nat \<Rightarrow> char" where
  "digit_char d = ''0123456789'' ! (d mod 10)"

fun str_nat_fuel :: "nat \<Rightarrow> nat \<Rightarrow> string" where
  "str_nat_fuel 0 n = [digit_char n]"
| "str_nat_fuel (Suc k) n =
     (if n < 10 then [digit_char n] else str_nat_fuel k (n div 10) @ [digit_char n])"

text \<open>A number \<open>n\<close> has at most \<open>n + 1\<close> decimal digits, so the fuel always suffices.\<close>

definition str_nat :: "nat \<Rightarrow> string" where
  "str_nat n = str_nat_fuel n n"

definition zfill :: "nat \<Rightarrow> string \<Rightarrow> string" where
  "zfill w s = replicate (w - length s) CHR ''0'' @ s"

text \<open>\<open>re.findall(r'\d+', s)\<close>: the maximal runs of digits, left to right.\<close>

fun digit_runs :: "string \<Rightarrow> string \<Rightarrow> string list" where
  "digit_runs cur [] = (if cur = [] then [] else [cur])"
| "digit_runs cur (c # cs) =
     (if is_digit c then digit_runs (cur @ [c]) cs
      else (if cur = [] then [] else [cur]) @ digit_runs [] cs)"

definition findall_digits :: "string \<Rightarrow> string list" where
  "findall_digits s = digit_runs [] s"

section \<open>Sanitizer: \<open>standardize_date\<close> (cleaner.py)\<close>

definition date_replacements :: "(char \<times> char) list" where
  "date_replacements =
     [(CHR ''l'', CHR ''1''), (CHR ''I'', CHR ''1''), (CHR ''O'', CHR ''0''),
      (CHR ''o'', CHR ''0''), (CHR ''?'', CHR ''7''), (CHR '':'', CHR ''-''),
      (CHR ''.'', CHR ''-''), (CHR '','', CHR ''-''), (CHR ''|'', CHR ''1''),
      (CHR ''_'', CHR ''-'')]"

definition month_map :: "(string \<times> string) list" where
  "month_map =
     [(''JAN'', ''01''), (''FEB'', ''02''), (''PEB'', ''02''), (''MAR'', ''03''),
      (''APR'', ''04''), (''MEI'', ''05''), (''MAY'', ''05''), (''JUN'', ''06''),
      (''JUL'', ''07''), (''AGU'', ''08''), (''AUG'', ''08''), (''SEP'', ''09''),
      (''OKT'', ''10''), (''OCT'', ''10''), (''NOV'', ''11''), (''DES'', ''12''),
      (''DEC'', ''12'')]"

definition sep_char :: "char \<Rightarrow> bool" where
  "sep_char c = (is_space c \<or> c = CHR ''-'')"

text \<open>
  A match of \<open>(\d{1,2})[\s\-]+([A-Z]{3,})[\s\-]+(\d{4})\<close> that starts at the head of
  \<open>s\<close>, with its three groups. The classes of neighbouring parts are disjoint, so
  every greedy repetition takes its maximal run and backtracking finds nothing else.
\<close>

definition match_text_at :: "string \<Rightarrow> (string \<times> string \<times> string) option" where
  "match_text_at s =
     (let d = takeWhile is_digit (take 2 s);
          r1 = drop (length d) s;
          sep1 = takeWhile sep_char r1;
          r2 = dropWhile sep_char r1;
          m = takeWhile is_upper r2;
          r3 = dropWhile is_upper r2;
          sep2 = takeWhile sep_char r3;
          r4 = dropWhile sep_char r3;
          y = take 4 r4
      in if d \<noteq> [] \<and> sep1 \<noteq> [] \<and> 3 \<le> length m \<and> sep2 \<noteq> [] \<and>
            length y = 4 \<and> list_all is_digit y
         then Some (d, m, y) else None)"

text \<open>\<open>re.search\<close>: the match at the leftmost position that has one.\<close>

fun search_text :: "string \<Rightarrow> (string \<times> string \<times> string) option" where
  "search_text [] = match_text_at []"
| "search_text (c # cs) =
     (case match_text_at (c # cs) of
        Some g \<Rightarrow> Some g
      | None \<Rightarrow> search_text cs)"

text \<open>
  \<open>standardize_date\<close>. The argument \<open>None\<close> of the source behaves as the empty
  string does (both are falsy and give \<open>None\<close>).
\<close>

definition clean_typos :: "string \<Rightarrow> string" where
  "clean_typos raw_text =
     foldl (\<lambda>text (old, new). replace_char old new text) (strip (upper raw_text))
       date_replacements"

definition strategy_a :: "string \<Rightarrow> string option" where
  "strategy_a text =
     (case search_text text of
        None \<Rightarrow> None
      | Some (d, m_str, y) \<Rightarrow>
          (case find (\<lambda>(k, v). is_in k m_str) month_map of
             None \<Rightarrow> None
           | Some (k, v) \<Rightarrow> Some (y @ ''-'' @ v @ ''-'' @ zfill 2 d)))"

definition strategy_b :: "string \<Rightarrow> string option" where
  "strategy_b text =
     (let nums = findall_digits text in
      if 3 \<le> length nums then
        (case find (\<lambda>n. length n = 4) nums of
           None \<Rightarrow> None
         | Some year \<Rightarrow>
             (let others = filter (\<lambda>n. n \<noteq> year) nums in
              if 2 \<le> length others then
                (let n1 = int_of_digits (others ! 0);
                     n2 = int_of_digits (others ! 1);
                     y_val = int_of_digits year
                 in if \<not> (1900 \<le> y_val \<and> y_val \<le> 2040) then None
                    else
                      (let (month, day) =
                             (if n2 > 12 \<and> 12 \<ge> n1 then (n1, n2)
                              else if n1 > 12 \<and> 12 \<ge> n2 then (n2, n1)
                              else (n2, n1))
                       in if 1 \<le> month \<and> month \<le> 12 \<and> 1 \<le> day \<and> day \<le> 31
                          then Some (year @ ''-'' @ zfill 2 (str_nat month) @ ''-'' @
                                     zfill 2 (str_nat day))
                          else None))
              else None))
      else None)"

definition standardize_date :: "string \<Rightarrow> string option" where
  "standardize_date raw_text =
     (if raw_text = [] then None
      else
        (let text = clean_typos raw_text in
         case strategy_a text of
           Some r \<Rightarrow> Some r
         | None \<Rightarrow> strategy_b text))"

section \<open>ContentCache: \<open>OCRCache\<close> (cache.py)\<close>

text \<open>
  The \<open>OrderedDict\<close> is an association list with unique keys, the oldest entry
  first. An entry holds the data and the time of its insertion. The clock readings of
  \<open>time.time()\<close> are arguments; they are modelled as real numbers.
\<close>

record 'd ocr_cache =
  cache :: "(string \<times> 'd \<times> real) list"
  max_size :: int
  ttl :: real
  hits :: nat
  misses :: nat

definition new_cache :: "int \<Rightarrow> real \<Rightarrow> 'd ocr_cache" where
  "new_cache m t = \<lparr>cache = [], max_size = m, ttl = t, hits = 0, misses = 0\<rparr>"

definition contains_key :: "'d ocr_cache \<Rightarrow> string \<Rightarrow> bool" where
  "contains_key s k = (k \<in> set (map fst (cache s)))"

text \<open>\<open>get\<close> returns the new state and the result (\<open>None\<close> on a miss).\<close>

definition cache_get :: "'d ocr_cache \<Rightarrow> real \<Rightarrow> string \<Rightarrow> 'd ocr_cache \<times> 'd option" where
  "cache_get s now file_hash =
     (case map_of (cache s) file_hash of
        Some (d, ts) \<Rightarrow>
          (if now - ts < ttl s
           then (s\<lparr>cache := filter (\<lambda>e. fst e \<noteq> file_hash) (cache s) @ [(file_hash, d, ts)],
                   hits := hits s + 1\<rparr>, Some d)
           else (s\<lparr>cache := filter (\<lambda>e. fst e \<noteq> file_hash) (cache s),
                   misses := misses s + 1\<rparr>, None))
      | None \<Rightarrow> (s\<lparr>misses := misses s + 1\<rparr>, None))"

text \<open>
  The eviction loop \<open>while len(self._cache) >= self._max_size: popitem(last=False)\<close>.
  \<open>popitem\<close> on an empty dictionary raises \<open>KeyError\<close>: the result \<open>None\<close>
  (the loop has emptied the dictionary by then).
\<close>

fun evict :: "int \<Rightarrow> 'a list \<Rightarrow> 'a list option" where
  "evict m [] = (if 0 \<ge> m then None else Some [])"
| "evict m (x # xs) = (if int (length (x # xs)) \<ge> m then evict m xs else Some (x # xs))"

text \<open>The assignment \<open>self._cache[k] = v\<close> keeps the position of a key that exists.\<close>

definition dict_set :: "(string \<times> 'v) list \<Rightarrow> string \<Rightarrow> 'v \<Rightarrow> (string \<times> 'v) list" where
  "dict_set c k v =
     (if k \<in> set (map fst c) then map (\<lambda>e. if fst e = k then (k, v) else e) c
      else c @ [(k, v)])"

definition cache_put :: "'d ocr_cache \<Rightarrow> real \<Rightarrow> string \<Rightarrow> 'd \<Rightarrow> 'd ocr_cache option" where
  "cache_put s now file_hash d =
     (case evict (max_size s) (cache s) of
        None \<Rightarrow> None
      | Some c \<Rightarrow> Some (s\<lparr>cache := dict_set c file_hash (d, now)\<rparr>))"

section \<open>DocumentClassifier: \<open>detect_document_type\<close> (parser.py)\<close>










section \<open>FieldParsers: \<open>clean_mrz_line\<close> (parsers/passport_parser.py)\<close>

text \<open>
  \<open>replace old new s\<close> is \<open>s.replace(old, new)\<close>: the occurrences of \<open>old\<close> are
  replaced from the left and do not overlap. The source never calls it with an empty
  \<open>old\<close>.
\<close>

function replace :: "string \<Rightarrow> string \<Rightarrow> string \<Rightarrow> string" where
  "replace old new [] = []"
| "replace old new (c # cs) =
     (if old \<noteq> [] \<and> startswith (c # cs) old
      then new @ replace old new (drop (length old) (c # cs))
      else c # replace old new cs)"
  by pat_completeness auto
termination
  by (relation "measure (\<lambda>(old, new, s). length s)") auto

text \<open>
  \<open>sub_runs P k f [] s\<close> is \<open>re.sub\<close> for a pattern that matches the runs of at least
  \<open>k\<close> characters of the class \<open>P\<close> (\<open>k\<close> positive): every maximal run that long is
  replaced by \<open>f\<close> of it. The second argument is the run read so far.
\<close>

fun sub_runs :: "(char \<Rightarrow> bool) \<Rightarrow> nat \<Rightarrow> (string \<Rightarrow> string) \<Rightarrow> string \<Rightarrow> string \<Rightarrow> string" where
  "sub_runs P k f cur [] = (if k \<le> length cur then f cur else cur)"
| "sub_runs P k f cur (c # cs) =
     (if P c then sub_runs P k f (cur @ [c]) cs
      else (if k \<le> length cur then f cur else cur) @ c # sub_runs P k f [] cs)"

text \<open>
  The keys of \<open>bracket_replacements\<close>, in the order of the dictionary. The last four
  before the bar are not ASCII; they are written as their code points.
\<close>

definition bracket_chars :: "char list" where
  "bracket_chars = [CHR ''('', CHR '')'', CHR ''['', CHR '']'', CHR ''{'', CHR ''}'',
                    CHR 0xAB, CHR 0xBB, CHR 0xA3, CHR 0xA2, CHR ''|'']"

definition chevron_lookalikes :: "char list" where
  "chevron_lookalikes = ''KCERXVY''"

definition mrz_pass1 :: "string \<Rightarrow> string" where
  "mrz_pass1 result = foldl (\<lambda>r old. replace_char old CHR ''<'' r) result bracket_chars"

definition mrz_pass2_once :: "string \<Rightarrow> string" where
  "mrz_pass2_once result =
     (let r1 = foldl (\<lambda>r c. replace [CHR ''<'', c, c, CHR ''<''] ''<<<<''
                               (replace [CHR ''<'', c, CHR ''<''] ''<<<'' r))
                 result chevron_lookalikes;
          r2 = replace ''K<'' ''<<'' r1;
          r3 = replace ''<K'' ''<<'' r2;
          r4 = replace ''C<'' ''<<'' r3
      in replace ''<C'' ''<<'' r4)"

definition mrz_pass2 :: "string \<Rightarrow> string" where
  "mrz_pass2 result = (mrz_pass2_once ^^ 5) result"

text \<open>
  A match of \<open>(<{3,})([KCERXVY]+)$\<close> at the head of the string, as the length of the
  two groups together. \<open>$\<close> matches at the end and before a final newline.
\<close>

definition trailing_at :: "string \<Rightarrow> nat option" where
  "trailing_at s =
     (let a = takeWhile (\<lambda>c. c = CHR ''<'') s;
          r = dropWhile (\<lambda>c. c = CHR ''<'') s;
          l = takeWhile (\<lambda>c. c \<in> set chevron_lookalikes) r;
          t = dropWhile (\<lambda>c. c \<in> set chevron_lookalikes) r
      in if 3 \<le> length a \<and> l \<noteq> [] \<and> (t = [] \<or> t = [CHR 0x0A])
         then Some (length a + length l) else None)"

text \<open>\<open>result[:trailing_match.start()] + '<' * n\<close> for the leftmost match, if any.\<close>

fun mrz_pass3 :: "string \<Rightarrow> string" where
  "mrz_pass3 [] = []"
| "mrz_pass3 (c # cs) =
     (case trailing_at (c # cs) of
        Some n \<Rightarrow> replicate n CHR ''<''
      | None \<Rightarrow> c # mrz_pass3 cs)"

definition mrz_char :: "char \<Rightarrow> bool" where
  "mrz_char c = (is_upper c \<or> is_digit c \<or> c = CHR ''<'')"

definition mrz_pass4 :: "string \<Rightarrow> string" where
  "mrz_pass4 result = filter mrz_char result"

definition mrz_pass5 :: "string \<Rightarrow> string" where
  "mrz_pass5 result =
     sub_runs (\<lambda>c. c = CHR ''<'') 3 (\<lambda>m. replicate (length m) CHR ''<'') [] result"

definition clean_mrz_line :: "string \<Rightarrow> string" where
  "clean_mrz_line line =
     (if line = [] then []
      else mrz_pass5 (mrz_pass4 (mrz_pass3 (mrz_pass2 (mrz_pass1 (upper line))))))"

section \<open>FieldParsers: \<open>fix_ocr_digits\<close> and \<open>extract_nik\<close>\<close>

definition ocr_digit_replacements :: "(char \<times> char) list" where
  "ocr_digit_replacements =
     [(CHR ''O'', CHR ''0''), (CHR ''o'', CHR ''0''), (CHR ''D'', CHR ''0''),
      (CHR ''Q'', CHR ''0''), (CHR ''I'', CHR ''1''), (CHR ''l'', CHR ''1''),
      (CHR ''L'', CHR ''1''), (CHR ''|'', CHR ''1''), (CHR ''i'', CHR ''1''),
      (CHR ''?'', CHR ''7''), (CHR ''T'', CHR ''7''), (CHR ''S'', CHR ''5''),
      (CHR ''s'', CHR ''5''), (CHR ''B'', CHR ''8''), (CHR ''G'', CHR ''6''),
      (CHR ''g'', CHR ''9''), (CHR ''A'', CHR ''4''), (CHR ''Z'', CHR ''2''),
      (CHR ''z'', CHR ''2'')]"

definition fix_ocr_digits :: "string \<Rightarrow> string" where
  "fix_ocr_digits text =
     foldl (\<lambda>result (old, new). replace_char old new result) text ocr_digit_replacements"

text \<open>
  \<open>\b(\d{16})\b\<close>: sixteen digits with no word character before or after them. The
  first argument is the character before the current position.
\<close>

fun search_nik16 :: "char option \<Rightarrow> string \<Rightarrow> string option" where
  "search_nik16 prev [] = None"
| "search_nik16 prev (c # cs) =
     (let g = take 16 (c # cs); after = drop 16 (c # cs) in
      if length g = 16 \<and> list_all is_digit g \<and>
         (case prev of None \<Rightarrow> True | Some p \<Rightarrow> \<not> is_word p) \<and>
         (case after of [] \<Rightarrow> True | x # _ \<Rightarrow> \<not> is_word x)
      then Some g
      else search_nik16 (Some c) cs)"

text \<open>
  The class \<open>[0-9OoIlLDSBZz?|\-\)\(]\<close> as written, and as it matches under
  \<open>re.IGNORECASE\<close>.
\<close>

definition nik_class :: "char \<Rightarrow> bool" where
  "nik_class c = (c \<in> set ''0123456789OoIlLDSBZz?|-)('')"

definition nik_class_ci :: "char \<Rightarrow> bool" where
  "nik_class_ci c = (c \<in> set ''0123456789OoIiLlDdSsBbZz?|-)('')"

definition nik_sep :: "char \<Rightarrow> bool" where
  "nik_sep c = (c = CHR '':'' \<or> is_space c \<or> c = CHR ''='')"

text \<open>
  \<open>NIK[:\s=]*([...]{14,22})\<close> under \<open>re.IGNORECASE\<close> at the head of the string; the
  result is the group. The separators and the class are disjoint.
\<close>

definition nik_label_at :: "string \<Rightarrow> string option" where
  "nik_label_at s =
     (if upper (take 3 s) = ''NIK'' then
        (let g = take 22 (takeWhile nik_class_ci (dropWhile nik_sep (drop 3 s))) in
         if 14 \<le> length g then Some g else None)
      else None)"

fun search_nik_label :: "string \<Rightarrow> string option" where
  "search_nik_label [] = None"
| "search_nik_label (c # cs) =
     (case nik_label_at (c # cs) of
        Some g \<Rightarrow> Some g
      | None \<Rightarrow> search_nik_label cs)"

text \<open>\<open>re.findall\<close> of the class repeated 14 to 22 times: matches do not overlap.\<close>

function findall_nik :: "string \<Rightarrow> string list" where
  "findall_nik [] = []"
| "findall_nik (c # cs) =
     (let g = take 22 (takeWhile nik_class (c # cs)) in
      if 14 \<le> length g then g # findall_nik (drop (length g) (c # cs))
      else findall_nik cs)"
  by pat_completeness auto
termination
  by (relation "measure length") auto

text \<open>The digits of a repaired run, cut to sixteen, if there are that many.\<close>

definition nik_of_run :: "string \<Rightarrow> string option" where
  "nik_of_run seq =
     (let fixed = fix_ocr_digits seq;
          digits = filter is_digit fixed
      in if 16 \<le> length digits then Some (take 16 digits) else None)"

fun first_nik :: "string list \<Rightarrow> string option" where
  "first_nik [] = None"
| "first_nik (seq # seqs) =
     (case nik_of_run seq of
        Some d \<Rightarrow> Some d
      | None \<Rightarrow> first_nik seqs)"

definition extract_nik :: "string \<Rightarrow> string option" where
  "extract_nik text =
     (let clean_text = sub_runs is_space 1 (\<lambda>m. '' '') [] text in
      case search_nik16 None clean_text of
        Some nik \<Rightarrow> Some nik
      | None \<Rightarrow>
          (case Option.bind (search_nik_label clean_text) nik_of_run of
             Some nik \<Rightarrow> Some nik
           | None \<Rightarrow> first_nik (findall_nik clean_text)))"

section \<open>The record of one person: \<open>ExtractedDataItem\<close> (schemas.py)\<close>

text \<open>
  The class has 32 fields, all of type \<open>str\<close>. The merger reads and writes them by
  name (\<open>dict()\<close>, \<open>getattr\<close>, \<open>setattr\<close>), so an item is a function from the field
  names to strings. Items are values here: the model assumes that the objects of one
  list are distinct, which holds for the items a batch builds from its OCR results.
\<close>

datatype field =
    Title | Nama | Nama_ayah | Jenis_identitas | No_identitas | Nama_paspor | No_paspor
  | Tanggal_paspor | Kota_paspor | Tempat_lahir | Tanggal_lahir | Alamat | Provinsi
  | Kabupaten | Kecamatan | Kelurahan | No_telepon | No_hp | Kewarganegaraan
  | Status_pernikahan | Pendidikan | Pekerjaan | Provider_visa | No_visa | Tanggal_visa
  | Tanggal_visa_akhir | Asuransi | No_polis | Tanggal_input_polis | Tanggal_awal_polis
  | Tanggal_akhir_polis | No_bpjs

type_synonym item = "field \<Rightarrow> string"

definition all_fields :: "field list" where
  "all_fields =
     [Title, Nama, Nama_ayah, Jenis_identitas, No_identitas, Nama_paspor, No_paspor,
      Tanggal_paspor, Kota_paspor, Tempat_lahir, Tanggal_lahir, Alamat, Provinsi,
      Kabupaten, Kecamatan, Kelurahan, No_telepon, No_hp, Kewarganegaraan,
      Status_pernikahan, Pendidikan, Pekerjaan, Provider_visa, No_visa, Tanggal_visa,
      Tanggal_visa_akhir, Asuransi, No_polis, Tanggal_input_polis, Tanggal_awal_polis,
      Tanggal_akhir_polis, No_bpjs]"

text \<open>The defaults of the class: every field empty, the citizenship \<open>WNI\<close>.\<close>

definition default_item :: item where
  "default_item = (\<lambda>f. if f = Kewarganegaraan then ''WNI'' else [])"

section \<open>RecordMerger: \<open>fuzzy_merge_data\<close> (cleaner.py)\<close>

text \<open>
  \<open>SequenceMatcher(None, n1, n2).ratio()\<close> is a function of the standard library; it
  is the parameter \<open>ratio\<close> of the model.
\<close>

definition is_similar :: "(string \<Rightarrow> string \<Rightarrow> real) \<Rightarrow> string \<Rightarrow> string \<Rightarrow> bool" where
  "is_similar ratio n1 n2 =
     (if n1 = [] \<or> n2 = [] then False
      else if n1 = n2 then True
      else if length n1 > 3 \<and> length n2 > 3 \<and> (startswith n1 n2 \<or> startswith n2 n1)
      then True
      else ratio n1 n2 > 0.80)"

text \<open>Step 1 of the merge strategy: which name the existing record keeps.\<close>

definition merge_name :: "item \<Rightarrow> item \<Rightarrow> item" where
  "merge_name existing new_item =
     (let curr_space = is_in '' '' (existing Nama);
          new_space = is_in '' '' (new_item Nama)
      in if new_space \<and> \<not> curr_space then existing(Nama := new_item Nama)
         else if new_space = curr_space then
           (if length (new_item Nama) > length (existing Nama) \<and>
               \<not> is_in ''KKK'' (new_item Nama)
            then existing(Nama := new_item Nama)
            else existing)
         else existing)"

text \<open>Step 2: the loop over the fields of the new item that fills the empty ones.\<close>

definition fill_field :: "item \<Rightarrow> item \<Rightarrow> field \<Rightarrow> item" where
  "fill_field new_item existing f =
     (if existing f = [] \<and> new_item f \<noteq> [] then existing(f := new_item f) else existing)"

definition fill_missing :: "item \<Rightarrow> item \<Rightarrow> item" where
  "fill_missing existing new_item = foldl (fill_field new_item) existing all_fields"

definition merge_item :: "item \<Rightarrow> item \<Rightarrow> item" where
  "merge_item existing new_item = fill_missing (merge_name existing new_item) new_item"

text \<open>
  The inner loop over \<open>consolidated\<close>: the first similar record takes the new item;
  \<open>None\<close> when no record matched.
\<close>

fun merge_into :: "(string \<Rightarrow> string \<Rightarrow> real) \<Rightarrow> item \<Rightarrow> item list \<Rightarrow> item list option" where
  "merge_into ratio new_item [] = None"
| "merge_into ratio new_item (existing # rest) =
     (if is_similar ratio (new_item Nama) (existing Nama)
      then Some (merge_item existing new_item # rest)
      else map_option (\<lambda>r. existing # r) (merge_into ratio new_item rest))"

definition merge_step :: "(string \<Rightarrow> string \<Rightarrow> real) \<Rightarrow> item list \<Rightarrow> item \<Rightarrow> item list" where
  "merge_step ratio consolidated new_item =
     (case merge_into ratio new_item consolidated of
        Some merged \<Rightarrow> merged
      | None \<Rightarrow> consolidated @ [new_item])"

definition consolidate :: "(string \<Rightarrow> string \<Rightarrow> real) \<Rightarrow> item list \<Rightarrow> item list" where
  "consolidate ratio data_list = foldl (merge_step ratio) [] data_list"

text \<open>Step 3: the pass after the merge, on each consolidated record.\<close>

definition passport_types :: "string list" where
  "passport_types = [''PASPOR'', ''PASSPORT'', ''VISA'']"

definition post_merge :: "item \<Rightarrow> item" where
  "post_merge it =
     (if it Jenis_identitas \<noteq> [] \<and> upper (it Jenis_identitas) \<in> set passport_types then
        (if it No_paspor \<noteq> [] then it(No_identitas := it No_paspor) else it)
      else if it No_paspor \<noteq> [] \<and> it No_identitas = [] then
        it(No_identitas := it No_paspor, Jenis_identitas := ''Paspor'')
      else it)"

definition fuzzy_merge_data :: "(string \<Rightarrow> string \<Rightarrow> real) \<Rightarrow> item list \<Rightarrow> item list" where
  "fuzzy_merge_data ratio data_list = map post_merge (consolidate ratio data_list)"

section \<open>Validator (validators.py)\<close>

text \<open>
  A row is the dictionary of an item: field names to strings. A warning is a dictionary
  with the keys \<open>field\<close> and \<open>message\<close>.
\<close>

type_synonym row = "string \<rightharpoonup> string"

record warning =
  field :: string
  message :: string

definition row_get :: "row \<Rightarrow> string \<Rightarrow> string" where
  "row_get row_data k = (case row_data k of Some v \<Rightarrow> v | None \<Rightarrow> [])"

definition validate_nik :: "string \<Rightarrow> string option" where
  "validate_nik nik =
     (if nik = [] then None
      else
        (let cleaned = filter is_digit nik in
         if length cleaned \<noteq> 16
         then Some (''NIK harus 16 digit (ditemukan '' @ str_nat (length cleaned) @ '' digit)'')
         else None))"

text \<open>
  \<open>datetime.strptime\<close> belongs to the standard library: \<open>strptime value fmt\<close> says
  whether it parses \<open>value\<close> under \<open>fmt\<close> without raising \<open>ValueError\<close>.
\<close>

definition date_formats :: "string list" where
  "date_formats = [''%Y-%m-%d'', ''%d-%m-%Y'', ''%d/%m/%Y'', ''%Y/%m/%d'']"

definition validate_date :: "(string \<Rightarrow> string \<Rightarrow> bool) \<Rightarrow> string \<Rightarrow> string \<Rightarrow> string option" where
  "validate_date strptime v field_label =
     (if v = [] then None
      else if list_ex (\<lambda>fmt. strptime (strip v) fmt) date_formats then None
      else Some (field_label @ '': format tanggal tidak valid (gunakan YYYY-MM-DD)''))"

text \<open>\<open>re.match(r'^[A-Z]\d{6,7}$', cleaned)\<close>.\<close>

definition passport_match :: "string \<Rightarrow> bool" where
  "passport_match cleaned =
     (case cleaned of
        [] \<Rightarrow> False
      | c # cs \<Rightarrow>
          (let d = takeWhile is_digit (take 7 cs);
               t = drop (length d) cs
           in is_upper c \<and> 6 \<le> length d \<and> (t = [] \<or> t = [CHR 0x0A])))"

definition validate_passport_number :: "string \<Rightarrow> string option" where
  "validate_passport_number passport =
     (if passport = [] then None
      else if \<not> passport_match (upper (strip passport))
      then Some (''No Paspor format tidak valid: '' @ [CHR 0x27] @ passport @ [CHR 0x27])
      else None)"

definition validate_visa_number :: "string \<Rightarrow> string option" where
  "validate_visa_number visa =
     (if visa = [] then None
      else if length (strip visa) < 8
      then Some (''No Visa terlalu pendek: '' @ [CHR 0x27] @ visa @ [CHR 0x27])
      else None)"

definition validate_kewarganegaraan :: "string \<Rightarrow> string option" where
  "validate_kewarganegaraan v =
     (if v = [] then None
      else if upper v \<notin> set [''WNI'', ''WNA''] then Some ''Kewarganegaraan harus WNI atau WNA''
      else None)"

definition date_fields :: "(string \<times> string) list" where
  "date_fields =
     [(''tanggal_lahir'', ''Tanggal Lahir''),
      (''tanggal_paspor'', ''Tanggal Paspor''),
      (''tanggal_visa'', ''Tanggal Visa''),
      (''tanggal_visa_akhir'', ''Tanggal Visa Akhir''),
      (''tanggal_input_polis'', ''Tanggal Input Polis''),
      (''tanggal_awal_polis'', ''Tanggal Awal Polis''),
      (''tanggal_akhir_polis'', ''Tanggal Akhir Polis'')]"

text \<open>\<open>warn k w\<close>: the warning appended for the result \<open>w\<close> of a check, if any.\<close>

definition warn :: "string \<Rightarrow> string option \<Rightarrow> warning list" where
  "warn k w = (case w of None \<Rightarrow> [] | Some m \<Rightarrow> [\<lparr>field = k, message = m\<rparr>])"

definition validate_row :: "(string \<Rightarrow> string \<Rightarrow> bool) \<Rightarrow> row \<Rightarrow> warning list" where
  "validate_row strptime row_data =
     (if upper (row_get row_data ''jenis_identitas'') \<in> set [''KTP'', ''MERGED'']
      then warn ''no_identitas'' (validate_nik (row_get row_data ''no_identitas''))
      else []) @
     warn ''no_paspor'' (validate_passport_number (row_get row_data ''no_paspor'')) @
     warn ''no_visa'' (validate_visa_number (row_get row_data ''no_visa'')) @
     concat (map (\<lambda>(field_key, field_label).
                    warn field_key (validate_date strptime (row_get row_data field_key) field_label))
               date_fields) @
     warn ''kewarganegaraan'' (validate_kewarganegaraan (row_get row_data ''kewarganegaraan'')) @
     (if strip (row_get row_data ''nama'') = []
      then [\<lparr>field = ''nama'', message = ''Nama tidak boleh kosong''\<rparr>]
      else [])"

section \<open>EngineDispatcher: \<open>_process_single_image\<close> (document_processor.py)\<close>

text \<open>
  The result of an OCR engine is a dictionary from keys to JSON values: \<open>null\<close>, a
  string, or a truth value (the marker \<open>_partial\<close>). \<open>truthy\<close> is the truth value
  Python gives to \<open>d.get(k)\<close>.
\<close>

datatype pyval = PNone | PStr string | PBool bool

type_synonym doc_data = "string \<rightharpoonup> pyval"

fun truthy :: "pyval option \<Rightarrow> bool" where
  "truthy None = False"
| "truthy (Some PNone) = False"
| "truthy (Some (PStr s)) = (s \<noteq> [])"
| "truthy (Some (PBool b)) = b"

text \<open>
  The engines call Tesseract and the Gemini service; what a call gives is not decided
  by the program. \<open>oracle e n\<close> is the outcome of the \<open>n\<close>-th call of engine \<open>e\<close>
  while one unit is processed: \<open>Inl msg\<close> when the call raises an \<open>Exception\<close>
  whose \<open>str\<close> is \<open>msg\<close> (a result that is not a dictionary raises inside the same
  \<open>try\<close>), \<open>Inr d\<close> when it returns the dictionary \<open>d\<close>. The events record the
  calls and the sleeps in the order they happen.
\<close>

datatype engine = Gemini | Tesseract | Hybrid

datatype event = Call engine | Sleep real

record config =
  OCR_ENGINE :: string
  OCR_FALLBACK_ENABLED :: bool
  MAX_RETRIES :: nat
  RETRY_DELAY_SECONDS :: real

definition default_config :: config where
  "default_config = \<lparr>OCR_ENGINE = ''gemini'', OCR_FALLBACK_ENABLED = True,
                      MAX_RETRIES = 2, RETRY_DELAY_SECONDS = 1\<rparr>"

text \<open>\<open>engines.get(OCR_ENGINE, _process_with_gemini)\<close>.\<close>

definition primary_engine :: "string \<Rightarrow> engine" where
  "primary_engine name =
     (if name = ''gemini'' then Gemini
      else if name = ''tesseract'' then Tesseract
      else if name = ''hybrid'' then Hybrid
      else Gemini)"

text \<open>
  The loop \<open>for attempt in range(1, MAX_RETRIES + 2)\<close> over the attempts that are
  left; \<open>last_error\<close> is the exception of the attempt before.
\<close>

fun retry_loop ::
  "config \<Rightarrow> (nat \<Rightarrow> string + doc_data) \<Rightarrow> nat list \<Rightarrow> string option \<Rightarrow>
   event list \<times> (string option + doc_data)" where
  "retry_loop cfg primary_fn [] last_error = ([], Inl last_error)"
| "retry_loop cfg primary_fn (attempt # rest) last_error =
     (case primary_fn attempt of
        Inr result \<Rightarrow> ([Call (primary_engine (OCR_ENGINE cfg))], Inr result)
      | Inl e \<Rightarrow>
          (let (events, res) = retry_loop cfg primary_fn rest (Some e) in
           (Call (primary_engine (OCR_ENGINE cfg)) #
            (if attempt \<le> MAX_RETRIES cfg
             then [Sleep (RETRY_DELAY_SECONDS cfg * real attempt)] else []) @ events,
            res)))"

text \<open>The dictionary returned when every attempt failed.\<close>

definition error_result :: "string option \<Rightarrow> doc_data" where
  "error_result last_error =
     [''document_type'' \<mapsto> PStr ''UNKNOWN'',
      ''nama'' \<mapsto> PNone,
      ''no_identitas'' \<mapsto> PNone,
      ''_error'' \<mapsto> PStr (case last_error of None \<Rightarrow> ''None'' | Some e \<Rightarrow> e),
      ''_partial'' \<mapsto> PBool True]"

definition process_single_image ::
  "config \<Rightarrow> (engine \<Rightarrow> nat \<Rightarrow> string + doc_data) \<Rightarrow> event list \<times> doc_data" where
  "process_single_image cfg oracle =
     (let primary = primary_engine (OCR_ENGINE cfg);
          (events, res) = retry_loop cfg (oracle primary) [1..<MAX_RETRIES cfg + 2] None
      in case res of
           Inr result \<Rightarrow> (events, result)
         | Inl last_error \<Rightarrow>
             (if OCR_FALLBACK_ENABLED cfg \<and> OCR_ENGINE cfg \<noteq> ''gemini'' then
                (case oracle Gemini (if primary = Gemini then MAX_RETRIES cfg + 2 else 1) of
                   Inr result \<Rightarrow> (events @ [Call Gemini], result)
                 | Inl e \<Rightarrow> (events @ [Call Gemini], error_result (Some e)))
              else (events, error_result last_error)))"

section \<open>The useful-data predicate and \<open>_process_one\<close> (document_processor.py)\<close>

definition has_useful_data :: "doc_data \<Rightarrow> bool" where
  "has_useful_data d =
     (truthy (d ''nama'') \<or> truthy (d ''no_identitas'') \<or> truthy (d ''no_paspor'') \<or>
      truthy (d ''no_visa''))"

text \<open>
  \<open>doc_data_to_item\<close> (mappers.py). \<open>get_or_empty\<close> is \<open>doc_data.get(k) or ""\<close>.
  The constructor of the class validates its arguments: a value that is not a string
  raises \<open>ValidationError\<close>, the result \<open>None\<close> here.
\<close>

fun get_or_empty :: "pyval option \<Rightarrow> string option" where
  "get_or_empty None = Some []"
| "get_or_empty (Some PNone) = Some []"
| "get_or_empty (Some (PStr s)) = Some s"
| "get_or_empty (Some (PBool b)) = (if b then None else Some [])"

definition field_name :: "field \<Rightarrow> string" where
  "field_name f =
     (case f of
        Title \<Rightarrow> ''title'' | Nama \<Rightarrow> ''nama'' | Nama_ayah \<Rightarrow> ''nama_ayah''
      | Jenis_identitas \<Rightarrow> ''jenis_identitas'' | No_identitas \<Rightarrow> ''no_identitas''
      | Nama_paspor \<Rightarrow> ''nama_paspor'' | No_paspor \<Rightarrow> ''no_paspor''
      | Tanggal_paspor \<Rightarrow> ''tanggal_paspor'' | Kota_paspor \<Rightarrow> ''kota_paspor''
      | Tempat_lahir \<Rightarrow> ''tempat_lahir'' | Tanggal_lahir \<Rightarrow> ''tanggal_lahir''
      | Alamat \<Rightarrow> ''alamat'' | Provinsi \<Rightarrow> ''provinsi'' | Kabupaten \<Rightarrow> ''kabupaten''
      | Kecamatan \<Rightarrow> ''kecamatan'' | Kelurahan \<Rightarrow> ''kelurahan''
      | No_telepon \<Rightarrow> ''no_telepon'' | No_hp \<Rightarrow> ''no_hp''
      | Kewarganegaraan \<Rightarrow> ''kewarganegaraan''
      | Status_pernikahan \<Rightarrow> ''status_pernikahan'' | Pendidikan \<Rightarrow> ''pendidikan''
      | Pekerjaan \<Rightarrow> ''pekerjaan'' | Provider_visa \<Rightarrow> ''provider_visa''
      | No_visa \<Rightarrow> ''no_visa'' | Tanggal_visa \<Rightarrow> ''tanggal_visa''
      | Tanggal_visa_akhir \<Rightarrow> ''tanggal_visa_akhir'' | Asuransi \<Rightarrow> ''asuransi''
      | No_polis \<Rightarrow> ''no_polis'' | Tanggal_input_polis \<Rightarrow> ''tanggal_input_polis''
      | Tanggal_awal_polis \<Rightarrow> ''tanggal_awal_polis''
      | Tanggal_akhir_polis \<Rightarrow> ''tanggal_akhir_polis'' | No_bpjs \<Rightarrow> ''no_bpjs'')"

text \<open>The value each field of the new item is built from.\<close>

definition item_source :: "doc_data \<Rightarrow> field \<Rightarrow> string option" where
  "item_source d f =
     (if f = Jenis_identitas then
        (case d ''document_type'' of
           None \<Rightarrow> Some ''UNKNOWN''
         | Some (PStr s) \<Rightarrow> Some s
         | Some _ \<Rightarrow> None)
      else if f = Nama_paspor then get_or_empty (d ''nama'')
      else if f = Kewarganegaraan then Some ''WNI''
      else get_or_empty (d (field_name f)))"

definition doc_data_to_item :: "doc_data \<Rightarrow> item option" where
  "doc_data_to_item d =
     (if list_all (\<lambda>f. item_source d f \<noteq> None) all_fields
      then Some (\<lambda>f. case item_source d f of Some v \<Rightarrow> v | None \<Rightarrow> [])
      else None)"

text \<open>
  What \<open>_process_one\<close> returns: success, the document type or the error, the items and
  whether the cache had an entry (the file name is passed through and left out).
\<close>

record one_result =
  success :: bool
  doc_type_or_error :: string
  items :: "item list"
  was_cached :: bool

definition failed :: "string \<Rightarrow> one_result" where
  "failed e = \<lparr>success = False, doc_type_or_error = e, items = [], was_cached = False\<rparr>"

text \<open>\<open>str(v)\<close> of the value under \<open>_error\<close>.\<close>

fun str_pyval :: "pyval \<Rightarrow> string" where
  "str_pyval PNone = ''None''"
| "str_pyval (PStr s) = s"
| "str_pyval (PBool b) = (if b then ''True'' else ''False'')"

text \<open>
  The branch for an image. \<open>t_get\<close> and \<open>t_put\<close> are the clock readings of the
  lookup and of the store; \<open>doc_data\<close> is what \<open>_process_single_image\<close> returns for
  the image (it is only asked for on a miss).
\<close>

definition process_one_image ::
  "item list ocr_cache \<Rightarrow> real \<Rightarrow> real \<Rightarrow> string \<Rightarrow> doc_data \<Rightarrow>
   item list ocr_cache \<times> one_result" where
  "process_one_image c t_get t_put file_hash doc_data =
     (let (c1, cached_result) = cache_get c t_get file_hash;
          cached = (cached_result \<noteq> None)
      in case cached_result of
           Some (it # its) \<Rightarrow>
             (c1, \<lparr>success = True, doc_type_or_error = it Jenis_identitas,
                   items = it # its, was_cached = cached\<rparr>)
         | _ \<Rightarrow>
             (if truthy (doc_data ''_partial'') then
                (c1, failed (case doc_data ''_error'' of
                               None \<Rightarrow> ''OCR failed'' | Some v \<Rightarrow> str_pyval v))
              else
                (case doc_data_to_item doc_data of
                   None \<Rightarrow> (c1, failed ''ValidationError'')
                 | Some it \<Rightarrow>
                     (case cache_put c1 t_put file_hash [it] of
                        None \<Rightarrow> (c1\<lparr>cache := []\<rparr>, failed ''KeyError'')
                      | Some c2 \<Rightarrow>
                          (c2, \<lparr>success = True, doc_type_or_error = it Jenis_identitas,
                                items = [it], was_cached = cached\<rparr>)))))"

text \<open>
  The branch for a PDF. \<open>pages\<close> is \<open>Inl msg\<close> when rendering the pages raises, else
  the results of \<open>_process_single_image\<close> for the pages in order. The loop over the
  page results keeps the useful ones; \<open>None\<close> when a conversion raises.
\<close>

fun useful_items :: "doc_data list \<Rightarrow> item list option" where
  "useful_items [] = Some []"
| "useful_items (d # ds) =
     (if has_useful_data d then
        (case doc_data_to_item d of
           None \<Rightarrow> None
         | Some it \<Rightarrow> map_option (\<lambda>r. it # r) (useful_items ds))
      else useful_items ds)"

definition process_one_pdf ::
  "item list ocr_cache \<Rightarrow> real \<Rightarrow> real \<Rightarrow> string \<Rightarrow> string + doc_data list \<Rightarrow>
   item list ocr_cache \<times> one_result" where
  "process_one_pdf c t_get t_put file_hash pages =
     (let (c1, cached_result) = cache_get c t_get file_hash;
          cached = (cached_result \<noteq> None)
      in case cached_result of
           Some (it # its) \<Rightarrow>
             (c1, \<lparr>success = True, doc_type_or_error = ''PDF'', items = it # its,
                   was_cached = cached\<rparr>)
         | _ \<Rightarrow>
             (case pages of
                Inl e \<Rightarrow> (c1, failed e)
              | Inr page_results \<Rightarrow>
                  (case useful_items page_results of
                     None \<Rightarrow> (c1, failed ''ValidationError'')
                   | Some its \<Rightarrow>
                       (if its \<noteq> [] then
                          (case cache_put c1 t_put file_hash its of
                             None \<Rightarrow> (c1\<lparr>cache := []\<rparr>, failed ''KeyError'')
                           | Some c2 \<Rightarrow>
                               (c2, \<lparr>success = True, doc_type_or_error = ''PDF'', items = its,
                                     was_cached = cached\<rparr>))
                        else
                          (c1, \<lparr>success = True, doc_type_or_error = ''PDF'', items = [],
                                was_cached = cached\<rparr>)))))"

text \<open>The loop of \<open>process_files\<close> adds the items of a successful unit to the batch.\<close>

definition collect :: "item list \<Rightarrow> one_result \<Rightarrow> item list" where
  "collect extracted_data r = (if success r then extracted_data @ items r else extracted_data)"

section \<open>Sanitizer: \<open>clean_entry\<close> (cleaner.py) and \<open>run_pipeline\<close>\<close>

text \<open>The class \<open>[.,\-!@#$%\^&*()_+=|<>?{}[\]~`]\<close>.\<close>

definition name_punct :: "char \<Rightarrow> bool" where
  "name_punct c = (c \<in> set (''.,-!@#$%^&*()_+=|<>?{}[]~'' @ [CHR 0x60]))"

text \<open>\<open>re.sub('^' + p + '\s+', '', name)\<close> for a literal \<open>p\<close>.\<close>

definition strip_prefix_ws :: "string \<Rightarrow> string \<Rightarrow> string" where
  "strip_prefix_ws p name =
     (if startswith name p \<and> takeWhile is_space (drop (length p) name) \<noteq> []
      then dropWhile is_space (drop (length p) name)
      else name)"

text \<open>\<open>re.sub(r'\s+SE$', '', name)\<close>: the match is at the end or before a final newline.\<close>

definition se_at :: "string \<Rightarrow> bool" where
  "se_at s = (takeWhile is_space s \<noteq> [] \<and>
              (dropWhile is_space s = ''SE'' \<or> dropWhile is_space s = ''SE'' @ [CHR 0x0A]))"

fun strip_se :: "string \<Rightarrow> string" where
  "strip_se [] = []"
| "strip_se (c # cs) =
     (if se_at (c # cs) then (if last (c # cs) = CHR 0x0A then [CHR 0x0A] else [])
      else c # strip_se cs)"

definition entry_blacklist :: "string list" where
  "entry_blacklist = [''PROVINSI'', ''KABUPATEN'', ''JAWA'', ''NIK'', ''LAKI-LAKI'',
                      ''PEREMPUAN'', ''AGAMA'', ''KAWIN'', ''GOL. DARAH'', ''GOL DARAH'',
                      ''PARTAI'']"

definition clean_name :: "string \<Rightarrow> string" where
  "clean_name nama =
     (let name = upper nama;
          name = map (\<lambda>c. if name_punct c then CHR '' '' else c) name;
          name = strip (sub_runs is_space 1 (\<lambda>m. '' '') [] name);
          name = strip_prefix_ws ''DN'' name;
          name = strip_prefix_ws ''IDN'' name
      in strip_se name)"

text \<open>\<open>standardize_date(x) or x\<close> on a date field that is not empty.\<close>

definition clean_date :: "string \<Rightarrow> string" where
  "clean_date v =
     (if v = [] then v
      else (case standardize_date v of
              None \<Rightarrow> v
            | Some r \<Rightarrow> if r = [] then v else r))"

definition clean_entry :: "item \<Rightarrow> item option" where
  "clean_entry entry =
     (let has_visa_data = (entry No_visa \<noteq> [] \<or> entry Tanggal_visa \<noteq> [] \<or>
                           entry Provider_visa \<noteq> []);
          has_passport_data = (entry No_paspor \<noteq> [] \<or> entry Tanggal_paspor \<noteq> []);
          has_id_data = (entry No_identitas \<noteq> []);
          has_name = (entry Nama \<noteq> [] \<and> strip (entry Nama) \<noteq> []);
          other_data = (has_visa_data \<or> has_passport_data \<or> has_id_data)
      in if \<not> has_name \<and> \<not> other_data then None
         else
           (let name_result =
                  (if has_name then
                     (let name = clean_name (entry Nama) in
                      if length name < 3 then (if \<not> other_data then None else Some [])
                      else if list_ex (\<lambda>word. is_in word name) entry_blacklist
                      then (if \<not> other_data then None else Some [])
                      else Some name)
                   else Some (entry Nama))
            in case name_result of
                 None \<Rightarrow> None
               | Some name \<Rightarrow>
                   Some (entry
                     (Nama := name,
                      Tanggal_lahir := clean_date (entry Tanggal_lahir),
                      Tanggal_paspor := clean_date (entry Tanggal_paspor),
                      Tanggal_visa := clean_date (entry Tanggal_visa),
                      Tanggal_visa_akhir := clean_date (entry Tanggal_visa_akhir),
                      Tempat_lahir := strip (upper (entry Tempat_lahir))))))"

text \<open>The dictionary \<open>item.model_dump()\<close> of an item.\<close>

definition row_of_item :: "item \<Rightarrow> row" where
  "row_of_item it k = map_option it (find (\<lambda>f. field_name f = k) all_fields)"

text \<open>
  \<open>run_pipeline\<close>: the sanitized items (the input of the merge stage), the merged
  records and their warnings.
\<close>

definition sanitize :: "item list \<Rightarrow> item list" where
  "sanitize extracted_data = List.map_filter clean_entry extracted_data"

definition run_pipeline ::
  "(string \<Rightarrow> string \<Rightarrow> real) \<Rightarrow> (string \<Rightarrow> string \<Rightarrow> bool) \<Rightarrow> item list \<Rightarrow>
   item list \<times> warning list list" where
  "run_pipeline ratio strptime extracted_data =
     (let sanitized_data = sanitize extracted_data;
          final_data = fuzzy_merge_data ratio sanitized_data
      in (final_data, map (\<lambda>it. validate_row strptime (row_of_item it)) final_data))"

section \<open>Scenarios and example inputs\<close>

text \<open>A sequence of \<open>put\<close> calls, each with its clock reading, and the keys in LRU order.\<close>

fun put_all :: "'d ocr_cache \<Rightarrow> (real \<times> string \<times> 'd) list \<Rightarrow> 'd ocr_cache option" where
  "put_all s [] = Some s"
| "put_all s ((now, k, d) # ps) =
     (case cache_put s now k d of None \<Rightarrow> None | Some s' \<Rightarrow> put_all s' ps)"

definition keys :: "'d ocr_cache \<Rightarrow> string list" where
  "keys s = map fst (cache s)"


text \<open>The two items of the merge example, two items with a passport number, and a
  similarity ratio that never exceeds the threshold.\<close>

definition dahlan_1 :: item where
  "dahlan_1 = default_item(Nama := ''AHMAD DAHLAN'', No_identitas := ''123'')"

definition dahlan_2 :: item where
  "dahlan_2 = default_item(Nama := ''AHMAD DAHLANN'', Alamat := ''Jl. Sudirman'')"

definition passport_item :: item where
  "passport_item = default_item(Nama := ''BUDI SANTOSO'', Jenis_identitas := ''Paspor'',
                                No_identitas := ''999'', No_paspor := ''A1234567'')"

definition ktp_item :: item where
  "ktp_item = default_item(Nama := ''SITI AMINAH'', Jenis_identitas := ''KTP'',
                           No_paspor := ''B7654321'')"

definition passport_example :: "item list" where
  "passport_example = [passport_item, ktp_item]"

definition no_ratio :: "string \<Rightarrow> string \<Rightarrow> real" where
  "no_ratio n1 n2 = 0"







text \<open>
  Oracles for the engines: every call returns a result, every call raises, only the second
  call returns. A configuration whose primary engine is Tesseract.
\<close>

definition always_ok :: "engine \<Rightarrow> nat \<Rightarrow> string + doc_data" where
  "always_ok e n = Inr [''document_type'' \<mapsto> PStr ''KTP'', ''nama'' \<mapsto> PStr ''BUDI'']"

definition always_fail :: "engine \<Rightarrow> nat \<Rightarrow> string + doc_data" where
  "always_fail e n = Inl ''timeout''"

definition second_ok :: "engine \<Rightarrow> nat \<Rightarrow> string + doc_data" where
  "second_ok e n = (if n = 2 then always_ok e n else always_fail e n)"

definition tesseract_config :: config where
  "tesseract_config = default_config\<lparr>OCR_ENGINE := ''tesseract''\<rparr>"

text \<open>One attempt of the loop that fails: the call, and the sleep if a retry follows.\<close>

definition failed_attempt :: "config \<Rightarrow> nat \<Rightarrow> event list" where
  "failed_attempt cfg attempt =
     Call (primary_engine (OCR_ENGINE cfg)) #
     (if attempt \<le> MAX_RETRIES cfg
      then [Sleep (RETRY_DELAY_SECONDS cfg * real attempt)] else [])"

text \<open>The condition of the fallback: \<open>OCR_FALLBACK_ENABLED and OCR_ENGINE != "gemini"\<close>.\<close>

definition use_fallback :: "config \<Rightarrow> bool" where
  "use_fallback cfg = (OCR_FALLBACK_ENABLED cfg \<and> OCR_ENGINE cfg \<noteq> ''gemini'')"

text \<open>
  Two OCR results without useful data: the dictionary \<open>extract_document_data\<close>
  (gemini_ocr.py) returns when the reply of the service is not JSON, and a visa page on
  which only the date was read. The singleton cache of the module, empty.
\<close>

definition blank_doc :: doc_data where
  "blank_doc = [''document_type'' \<mapsto> PStr ''UNKNOWN'', ''_raw'' \<mapsto> PStr ''no json'']"

definition visa_date_doc :: doc_data where
  "visa_date_doc = [''document_type'' \<mapsto> PStr ''VISA'', ''tanggal_visa'' \<mapsto> PStr ''2024-01-05'']"

definition empty_cache :: "item list ocr_cache" where
  "empty_cache = new_cache 100 3600"

section \<open>Date standardization\<close>

text \<open>
  C1. The spec lists seven examples for \<open>standardize_date\<close>. The code gives the stated
  output for four of them. For the three inputs with the month \<open>MEI\<close> it does not: the
  typo repair turns the letter \<open>I\<close> of \<open>MEI\<close> into the digit \<open>1\<close> before the month
  pattern is tried, so the pattern finds no month name and the numeric strategy reads the
  \<open>1\<close> as the month (or finds no year in \<open>L990\<close>, since the text is upper-cased
  before \<open>l\<close> is looked for). The theorem gives what the code returns for all seven.
\<close>

theorem standardize_date_examples:
  "standardize_date ''16 MEI 1990'' = Some ''1990-01-16'' \<and>
   standardize_date ''17 AGU 1995'' = Some ''1995-08-17'' \<and>
   standardize_date ''16-05-1990'' = Some ''1990-05-16'' \<and>
   standardize_date ''1990-05-16'' = Some ''1990-05-16'' \<and>
   standardize_date ''16 MEI l990'' = None \<and>
   standardize_date ''I6 MEI 1990'' = Some ''1990-01-16'' \<and>
   standardize_date ''1990-13-12'' = Some ''1990-12-13''"
proof -
  have 1: "standardize_date ''16 MEI 1990'' = Some ''1990-01-16''" by code_simp
  have 2: "standardize_date ''17 AGU 1995'' = Some ''1995-08-17''" by code_simp
  have 3: "standardize_date ''16-05-1990'' = Some ''1990-05-16''" by code_simp
  have 4: "standardize_date ''1990-05-16'' = Some ''1990-05-16''" by code_simp
  have 5: "standardize_date ''16 MEI l990'' = None" by code_simp
  have 6: "standardize_date ''I6 MEI 1990'' = Some ''1990-01-16''" by code_simp
  have 7: "standardize_date ''1990-13-12'' = Some ''1990-12-13''" by code_simp
  from 1 2 3 4 5 6 7 show ?thesis by blast
qed

section \<open>LRU order of the cache\<close>

lemma cache_get_hit:
  assumes "map_of (cache s) k = Some (d, ts)" and "now - ts < ttl s"
  shows "cache_get s now k =
           (s\<lparr>cache := filter (\<lambda>e. fst e \<noteq> k) (cache s) @ [(k, d, ts)],
              hits := hits s + 1\<rparr>, Some d)"
  using assms by (simp add: cache_get_def)

lemma cache_put_overflow:
  assumes "cache s = e # es" and "int (length (e # es)) = max_size s"
    and "k \<notin> set (map fst es)"
  shows "cache_put s now k d = Some (s\<lparr>cache := es @ [(k, d, now)]\<rparr>)"
proof -
  have "evict (max_size s) (e # es) = Some es"
    using assms(2) by (cases es) auto
  then show ?thesis using assms by (simp add: cache_put_def dict_set_def)
qed

text \<open>
  C5. A cache of capacity 3, four distinct keys. After \<open>put\<close> of \<open>a\<close>, \<open>b\<close>, \<open>c\<close>,
  \<open>d\<close> the keys are \<open>b\<close>, \<open>c\<close>, \<open>d\<close>: \<open>a\<close> was evicted. When \<open>get(a)\<close> is a hit
  (it comes before the entry of \<open>a\<close> expires) between the third and the fourth
  \<open>put\<close>, it returns the data of \<open>a\<close> and the keys are then \<open>c\<close>, \<open>a\<close>, \<open>d\<close>:
  \<open>b\<close> was evicted and \<open>a\<close> is the most recently used but one.
\<close>

theorem lru_eviction:
  assumes "distinct [a, b, c, d]" and "t_get - t1 < ttl0"
  shows "map_option keys
           (put_all (new_cache 3 ttl0) [(t1, a, va), (t2, b, vb), (t3, c, vc), (t4, d, vd)])
           = Some [b, c, d] \<and>
         (case put_all (new_cache 3 ttl0) [(t1, a, va), (t2, b, vb), (t3, c, vc)] of
            None \<Rightarrow> None
          | Some s3 \<Rightarrow>
              (case cache_get s3 t_get a of
                 (s3', r) \<Rightarrow> map_option (\<lambda>s4. (r, keys s4)) (cache_put s3' t4 d vd)))
           = Some (Some va, [c, a, d])"
  using assms
  by (auto simp: new_cache_def cache_put_def cache_get_def dict_set_def keys_def)

theorem lru_eviction_witness:
  "distinct [''a'', ''b'', ''c'', ''d''] \<and> (3::real) - 0 < 2 + 2 \<and>
   map_option keys
     (put_all (new_cache 3 (2 + 2))
        [(0, ''a'', 1::nat), (1, ''b'', 2), (2, ''c'', 3), (4, ''d'', 4)])
     = Some [''b'', ''c'', ''d''] \<and>
   (case put_all (new_cache 3 (2 + 2)) [(0, ''a'', 1::nat), (1, ''b'', 2), (2, ''c'', 3)] of
      None \<Rightarrow> None
    | Some s3 \<Rightarrow>
        (case cache_get s3 3 ''a'' of
           (s3', r) \<Rightarrow> map_option (\<lambda>s4. (r, keys s4)) (cache_put s3' 4 ''d'' 4)))
     = Some (Some 1, [''c'', ''a'', ''d''])"
proof -
  have h1: "distinct [''a'', ''b'', ''c'', ''d'']" by simp
  have h2: "(3::real) - 0 < 2 + 2" by simp
  from lru_eviction [OF h1 h2, of "1::nat" 1 2 2 3 4 4] h1 h2 show ?thesis by blast
qed

section \<open>Priority of the visa keywords\<close>



section \<open>MRZ chevron repair\<close>

lemma sub_runs_all:
  assumes "\<And>m. list_all Q m \<Longrightarrow> list_all Q (f m)"
  shows "list_all Q cur \<Longrightarrow> list_all Q s \<Longrightarrow> list_all Q (sub_runs P k f cur s)"
  using assms by (induction s arbitrary: cur) auto

lemma mrz_pass5_all: "list_all mrz_char s \<Longrightarrow> list_all mrz_char (mrz_pass5 s)"
  unfolding mrz_pass5_def
  by (rule sub_runs_all) (auto simp: mrz_char_def list_all_iff)

lemma mrz_pass4_all: "list_all mrz_char (mrz_pass4 s)"
  by (simp add: mrz_pass4_def list_all_iff)

text \<open>
  C8. \<open>clean_mrz_line\<close> turns \<open>P<IDN<K<C<E<<<\<close> into \<open>P<IDN<<<<<<<<<\<close>, a line of
  the same length; and for every input line the output consists of the characters
  \<open>A-Z\<close>, \<open>0-9\<close> and \<open><\<close> only.
\<close>

theorem clean_mrz_line_repair:
  "clean_mrz_line ''P<IDN<K<C<E<<<'' = ''P<IDN<<<<<<<<<'' \<and>
   length (clean_mrz_line ''P<IDN<K<C<E<<<'') = length ''P<IDN<K<C<E<<<'' \<and>
   list_all mrz_char (clean_mrz_line line)"
proof -
  have ex: "clean_mrz_line ''P<IDN<K<C<E<<<'' = ''P<IDN<<<<<<<<<''" by code_simp
  have "list_all mrz_char (clean_mrz_line line)"
    by (simp add: clean_mrz_line_def mrz_pass5_all mrz_pass4_all)
  with ex show ?thesis by simp
qed

section \<open>Shape of an extracted NIK\<close>

lemma search_nik16_shape:
  "search_nik16 prev s = Some g \<Longrightarrow> length g = 16 \<and> list_all is_digit g"
proof (induction s arbitrary: prev)
  case Nil
  then show ?case by simp
next
  case (Cons c cs)
  then show ?case by (auto simp: Let_def split: if_splits)
qed

lemma nik_of_run_shape:
  "nik_of_run seq = Some d \<Longrightarrow> length d = 16 \<and> list_all is_digit d"
  by (auto simp: nik_of_run_def Let_def list_all_iff split: if_splits dest: in_set_takeD)

lemma first_nik_shape:
  "first_nik seqs = Some d \<Longrightarrow> length d = 16 \<and> list_all is_digit d"
  by (induction seqs) (auto split: option.splits dest: nik_of_run_shape)

text \<open>
  C10. Whatever the input, a NIK that \<open>extract_nik\<close> returns has exactly 16
  characters and each of them is a decimal digit.
\<close>

theorem extract_nik_shape:
  assumes "extract_nik text = Some nik"
  shows "length nik = 16 \<and> list_all is_digit nik"
proof -
  let ?t = "sub_runs is_space 1 (\<lambda>m. '' '') [] text"
  show ?thesis
  proof (cases "search_nik16 None ?t")
    case (Some g)
    with assms have "nik = g" by (simp add: extract_nik_def)
    with Some show ?thesis using search_nik16_shape by blast
  next
    case None
    note n1 = None
    show ?thesis
    proof (cases "Option.bind (search_nik_label ?t) nik_of_run")
      case (Some g)
      with n1 assms have "nik = g" by (simp add: extract_nik_def)
      moreover from Some obtain seq where "nik_of_run seq = Some g"
        by (cases "search_nik_label ?t") auto
      ultimately show ?thesis using nik_of_run_shape by blast
    next
      case None
      with n1 assms have "first_nik (findall_nik ?t) = Some nik"
        by (simp add: extract_nik_def)
      then show ?thesis by (rule first_nik_shape)
    qed
  qed
qed

theorem extract_nik_shape_witness:
  "extract_nik ''NIK : 35I5O8250692OOO2'' = Some ''3515082506920002'' \<and>
   length ''3515082506920002'' = 16 \<and> list_all is_digit ''3515082506920002''"
proof -
  have h: "extract_nik ''NIK : 35I5O8250692OOO2'' = Some ''3515082506920002''" by code_simp
  from extract_nik_shape [OF h] h show ?thesis by simp
qed

section \<open>The merge and its consistency pass\<close>

lemma post_merge_invariant:
  "upper (post_merge it Jenis_identitas) \<in> set passport_types \<Longrightarrow>
   post_merge it No_paspor \<noteq> [] \<Longrightarrow>
   post_merge it No_identitas = post_merge it No_paspor"
  by (auto simp: post_merge_def split: if_splits) (simp_all add: passport_types_def upper_def)

lemma post_merge_copies:
  "it No_paspor \<noteq> [] \<Longrightarrow> it No_identitas = [] \<Longrightarrow>
   upper (it Jenis_identitas) \<notin> set passport_types \<Longrightarrow>
   post_merge it = it(No_identitas := it No_paspor, Jenis_identitas := ''Paspor'')"
  by (simp add: post_merge_def)

text \<open>
  C3. Every record that \<open>fuzzy_merge_data\<close> returns whose identity type is
  \<open>Paspor\<close>, \<open>Passport\<close> or \<open>Visa\<close> (in any letter case) and whose passport
  number is not empty has the passport number as its identity number. And every
  consolidated record with a passport number, an empty identity number and another
  identity type leaves the final pass with the passport number copied into the identity
  number and the identity type \<open>Paspor\<close>, the other fields unchanged.
\<close>

theorem consolidation_invariant:
  "(\<forall>r \<in> set (fuzzy_merge_data ratio data_list).
      upper (r Jenis_identitas) \<in> set passport_types \<and> r No_paspor \<noteq> [] \<longrightarrow>
      r No_identitas = r No_paspor) \<and>
   (\<forall>c \<in> set (consolidate ratio data_list).
      c No_paspor \<noteq> [] \<and> c No_identitas = [] \<and>
      upper (c Jenis_identitas) \<notin> set passport_types \<longrightarrow>
      post_merge c \<in> set (fuzzy_merge_data ratio data_list) \<and>
      post_merge c = c(No_identitas := c No_paspor, Jenis_identitas := ''Paspor''))"
proof (intro conjI ballI impI)
  fix r
  assume "r \<in> set (fuzzy_merge_data ratio data_list)"
    and p: "upper (r Jenis_identitas) \<in> set passport_types \<and> r No_paspor \<noteq> []"
  then obtain c where "r = post_merge c" by (auto simp: fuzzy_merge_data_def)
  with p show "r No_identitas = r No_paspor" by (simp add: post_merge_invariant)
next
  fix c
  assume "c \<in> set (consolidate ratio data_list)"
  then show "post_merge c \<in> set (fuzzy_merge_data ratio data_list)"
    by (simp add: fuzzy_merge_data_def)
next
  fix c
  assume "c No_paspor \<noteq> [] \<and> c No_identitas = [] \<and>
          upper (c Jenis_identitas) \<notin> set passport_types"
  then show "post_merge c = c(No_identitas := c No_paspor, Jenis_identitas := ''Paspor'')"
    by (simp add: post_merge_copies)
qed

lemma passport_example_consolidate:
  "consolidate no_ratio passport_example = passport_example"
  by (simp add: consolidate_def merge_step_def passport_example_def is_similar_def
        no_ratio_def default_item_def passport_item_def ktp_item_def)

theorem consolidation_invariant_witness:
  "post_merge passport_item \<in> set (fuzzy_merge_data no_ratio passport_example) \<and>
   upper (post_merge passport_item Jenis_identitas) \<in> set passport_types \<and>
   post_merge passport_item No_paspor = ''A1234567'' \<and>
   post_merge passport_item No_identitas = ''A1234567'' \<and>
   ktp_item \<in> set (consolidate no_ratio passport_example) \<and>
   ktp_item No_paspor = ''B7654321'' \<and>
   ktp_item No_identitas = [] \<and>
   upper (ktp_item Jenis_identitas) \<notin> set passport_types \<and>
   post_merge ktp_item No_identitas = ''B7654321'' \<and>
   post_merge ktp_item Jenis_identitas = ''Paspor''"
proof -
  let ?r = "post_merge passport_item"
  have m0: "?r \<in> set (fuzzy_merge_data no_ratio passport_example)"
    unfolding fuzzy_merge_data_def passport_example_consolidate
    by (simp add: passport_example_def)
  have m1: "ktp_item \<in> set (consolidate no_ratio passport_example)"
    unfolding passport_example_consolidate by (simp add: passport_example_def)
  have t0: "upper (?r Jenis_identitas) \<in> set passport_types"
    by (simp add: passport_item_def post_merge_def passport_types_def upper_def
          upper_char_def default_item_def)
  have p0: "?r No_paspor = ''A1234567''"
    by (simp add: passport_item_def post_merge_def passport_types_def upper_def
          upper_char_def default_item_def)
  have c1: "ktp_item No_paspor = ''B7654321''"
    by (simp add: ktp_item_def default_item_def)
  have c2: "ktp_item No_identitas = []"
    by (simp add: ktp_item_def default_item_def)
  have c3: "upper (ktp_item Jenis_identitas) \<notin> set passport_types"
    by (simp add: ktp_item_def passport_types_def upper_def upper_char_def default_item_def)
  note inv = consolidation_invariant [of no_ratio passport_example]
  from inv have "\<forall>r \<in> set (fuzzy_merge_data no_ratio passport_example).
      upper (r Jenis_identitas) \<in> set passport_types \<and> r No_paspor \<noteq> [] \<longrightarrow>
      r No_identitas = r No_paspor" by (rule conjunct1)
  then have "upper (?r Jenis_identitas) \<in> set passport_types \<and> ?r No_paspor \<noteq> [] \<longrightarrow>
      ?r No_identitas = ?r No_paspor" using m0 by (rule bspec)
  with t0 p0 have i0: "?r No_identitas = ''A1234567''" by simp
  from inv have "\<forall>c \<in> set (consolidate no_ratio passport_example).
      c No_paspor \<noteq> [] \<and> c No_identitas = [] \<and>
      upper (c Jenis_identitas) \<notin> set passport_types \<longrightarrow>
      post_merge c \<in> set (fuzzy_merge_data no_ratio passport_example) \<and>
      post_merge c = c(No_identitas := c No_paspor, Jenis_identitas := ''Paspor'')"
    by (rule conjunct2)
  then have "ktp_item No_paspor \<noteq> [] \<and> ktp_item No_identitas = [] \<and>
      upper (ktp_item Jenis_identitas) \<notin> set passport_types \<longrightarrow>
      post_merge ktp_item \<in> set (fuzzy_merge_data no_ratio passport_example) \<and>
      post_merge ktp_item =
        ktp_item(No_identitas := ktp_item No_paspor, Jenis_identitas := ''Paspor'')"
    using m1 by (rule bspec)
  with c1 c2 c3 have eq: "post_merge ktp_item =
        ktp_item(No_identitas := ktp_item No_paspor, Jenis_identitas := ''Paspor'')"
    by simp
  have i1: "post_merge ktp_item No_identitas = ''B7654321''"
    unfolding eq using c1 by simp
  have i2: "post_merge ktp_item Jenis_identitas = ''Paspor''"
    unfolding eq by simp
  from m0 t0 p0 i0 m1 c1 c2 c3 i1 i2 show ?thesis by (intro conjI)
qed

lemma fill_fields_apply:
  "foldl (fill_field new_item) existing fs g =
     (if g \<in> set fs \<and> existing g = [] \<and> new_item g \<noteq> [] then new_item g else existing g)"
  by (induction fs arbitrary: existing) (auto simp: fill_field_def)

lemma all_fields_complete: "f \<in> set all_fields"
  by (cases f) (simp_all add: all_fields_def)

lemma fill_missing_apply:
  "fill_missing existing new_item f =
     (if existing f = [] \<and> new_item f \<noteq> [] then new_item f else existing f)"
  by (simp add: fill_missing_def fill_fields_apply all_fields_complete)

lemma merge_name_other: "f \<noteq> Nama \<Longrightarrow> merge_name existing new_item f = existing f"
  by (simp add: merge_name_def Let_def)

lemma merge_item_other:
  "f \<noteq> Nama \<Longrightarrow>
   merge_item existing new_item f =
     (if existing f = [] \<and> new_item f \<noteq> [] then new_item f else existing f)"
  by (simp add: merge_item_def fill_missing_apply merge_name_other)

lemma merge_into_keeps:
  "merge_into ratio new_item cons = Some cons' \<Longrightarrow>
   length cons' = length cons \<and>
   (\<forall>i < length cons. \<forall>f. f \<noteq> Nama \<and> (cons ! i) f \<noteq> [] \<longrightarrow> (cons' ! i) f = (cons ! i) f)"
proof (induction cons arbitrary: cons')
  case Nil
  then show ?case by simp
next
  case (Cons e es)
  show ?case
  proof (cases "is_similar ratio (new_item Nama) (e Nama)")
    case True
    with Cons.prems have c: "cons' = merge_item e new_item # es" by simp
    show ?thesis unfolding c
      by (auto simp: nth_Cons merge_item_other split: nat.splits)
  next
    case False
    with Cons.prems obtain r where r: "merge_into ratio new_item es = Some r" "cons' = e # r"
      by auto
    from Cons.IH [OF r(1)] show ?thesis unfolding r(2)
      by (auto simp: nth_Cons split: nat.splits)
  qed
qed


lemma dahlan_consolidate:
  "consolidate ratio [dahlan_1, dahlan_2] = [merge_item dahlan_1 dahlan_2]"
  by (simp add: consolidate_def merge_step_def is_similar_def dahlan_1_def dahlan_2_def)

lemma dahlan_post_merge: "post_merge (merge_item dahlan_1 dahlan_2) = merge_item dahlan_1 dahlan_2"
proof -
  have "merge_item dahlan_1 dahlan_2 Jenis_identitas = []"
    by (simp add: merge_item_other dahlan_1_def dahlan_2_def default_item_def)
  moreover have "merge_item dahlan_1 dahlan_2 No_paspor = []"
    by (simp add: merge_item_other dahlan_1_def dahlan_2_def default_item_def)
  ultimately show ?thesis by (simp add: post_merge_def)
qed

lemma dahlan_name: "merge_item dahlan_1 dahlan_2 Nama = ''AHMAD DAHLANN''"
  by (simp add: merge_item_def fill_missing_apply merge_name_def dahlan_1_def dahlan_2_def
        default_item_def)

text \<open>
  C6. When a new item is merged into the record it matches, every field other than the
  name that is not empty in the record keeps its value, and every empty one takes the
  value of the new item; the other records of the list are untouched. For all similarity
  ratios, the two items of the example merge into one record with the name
  \<open>AHMAD DAHLANN\<close>, the identity number \<open>123\<close> and the address
  \<open>Jl. Sudirman\<close>.
\<close>

theorem merge_keeps_fields:
  "(\<forall>f. f \<noteq> Nama \<and> existing f \<noteq> [] \<longrightarrow> merge_item existing new_item f = existing f) \<and>
   (\<forall>f. f \<noteq> Nama \<and> existing f = [] \<longrightarrow> merge_item existing new_item f = new_item f) \<and>
   (\<forall>cons'. merge_into ratio new_item cons = Some cons' \<longrightarrow>
      length cons' = length cons \<and>
      (\<forall>i < length cons. \<forall>f. f \<noteq> Nama \<and> (cons ! i) f \<noteq> [] \<longrightarrow>
         (cons' ! i) f = (cons ! i) f)) \<and>
   fuzzy_merge_data ratio [dahlan_1, dahlan_2] = [merge_item dahlan_1 dahlan_2] \<and>
   merge_item dahlan_1 dahlan_2 Nama = ''AHMAD DAHLANN'' \<and>
   merge_item dahlan_1 dahlan_2 No_identitas = ''123'' \<and>
   merge_item dahlan_1 dahlan_2 Alamat = ''Jl. Sudirman''"
proof -
  have a: "\<forall>f. f \<noteq> Nama \<and> existing f \<noteq> [] \<longrightarrow> merge_item existing new_item f = existing f"
    by (simp add: merge_item_other)
  have b: "\<forall>f. f \<noteq> Nama \<and> existing f = [] \<longrightarrow> merge_item existing new_item f = new_item f"
    by (simp add: merge_item_other)
  have c: "\<forall>cons'. merge_into ratio new_item cons = Some cons' \<longrightarrow>
      length cons' = length cons \<and>
      (\<forall>i < length cons. \<forall>f. f \<noteq> Nama \<and> (cons ! i) f \<noteq> [] \<longrightarrow>
         (cons' ! i) f = (cons ! i) f)"
    using merge_into_keeps by blast
  have d: "fuzzy_merge_data ratio [dahlan_1, dahlan_2] = [merge_item dahlan_1 dahlan_2]"
    by (simp add: fuzzy_merge_data_def dahlan_consolidate dahlan_post_merge)
  have f: "merge_item dahlan_1 dahlan_2 No_identitas = ''123''"
    by (simp add: merge_item_other dahlan_1_def dahlan_2_def default_item_def)
  have g: "merge_item dahlan_1 dahlan_2 Alamat = ''Jl. Sudirman''"
    by (simp add: merge_item_other dahlan_1_def dahlan_2_def default_item_def)
  from a b c d dahlan_name f g show ?thesis by (intro conjI)
qed

theorem merge_keeps_fields_witness:
  "No_identitas \<noteq> Nama \<and> dahlan_1 No_identitas \<noteq> [] \<and>
   merge_item dahlan_1 dahlan_2 No_identitas = dahlan_1 No_identitas \<and>
   Alamat \<noteq> Nama \<and> dahlan_1 Alamat = [] \<and>
   merge_item dahlan_1 dahlan_2 Alamat = dahlan_2 Alamat \<and>
   merge_into no_ratio dahlan_2 [dahlan_1] = Some [merge_item dahlan_1 dahlan_2] \<and>
   length [merge_item dahlan_1 dahlan_2] = length [dahlan_1] \<and>
   ([merge_item dahlan_1 dahlan_2] ! 0) No_identitas = ([dahlan_1] ! 0) No_identitas"
proof -
  note th = merge_keeps_fields [of dahlan_1 dahlan_2 no_ratio "[dahlan_1]"]
  have h1: "No_identitas \<noteq> Nama \<and> dahlan_1 No_identitas \<noteq> []"
    by (simp add: dahlan_1_def default_item_def)
  have h2: "Alamat \<noteq> Nama \<and> dahlan_1 Alamat = []"
    by (simp add: dahlan_1_def default_item_def)
  have h3: "merge_into no_ratio dahlan_2 [dahlan_1] = Some [merge_item dahlan_1 dahlan_2]"
    by (simp add: is_similar_def dahlan_1_def dahlan_2_def)
  from th have "\<forall>f. f \<noteq> Nama \<and> dahlan_1 f \<noteq> [] \<longrightarrow> merge_item dahlan_1 dahlan_2 f = dahlan_1 f"
    by (rule conjunct1)
  with h1 have r1: "merge_item dahlan_1 dahlan_2 No_identitas = dahlan_1 No_identitas"
    by blast
  from th have "\<forall>f. f \<noteq> Nama \<and> dahlan_1 f = [] \<longrightarrow> merge_item dahlan_1 dahlan_2 f = dahlan_2 f"
    by blast
  with h2 have r2: "merge_item dahlan_1 dahlan_2 Alamat = dahlan_2 Alamat"
    by blast
  from th have "\<forall>cons'. merge_into no_ratio dahlan_2 [dahlan_1] = Some cons' \<longrightarrow>
      length cons' = length [dahlan_1] \<and>
      (\<forall>i < length [dahlan_1]. \<forall>f. f \<noteq> Nama \<and> ([dahlan_1] ! i) f \<noteq> [] \<longrightarrow>
         (cons' ! i) f = ([dahlan_1] ! i) f)"
    by blast
  with h3 have r3: "length [merge_item dahlan_1 dahlan_2] = length [dahlan_1] \<and>
      (\<forall>i < length [dahlan_1]. \<forall>f. f \<noteq> Nama \<and> ([dahlan_1] ! i) f \<noteq> [] \<longrightarrow>
         ([merge_item dahlan_1 dahlan_2] ! i) f = ([dahlan_1] ! i) f)"
    by blast
  then have r4: "([merge_item dahlan_1 dahlan_2] ! 0) No_identitas = ([dahlan_1] ! 0) No_identitas"
    using h1 by simp
  from h1 r1 h2 r2 h3 r3 r4 show ?thesis by simp
qed

section \<open>Warnings of the validator\<close>

























section \<open>Retries and fallback of the dispatcher\<close>

lemma retry_loop_fail:
  "(\<forall>a \<in> set as. isl (prim a)) \<Longrightarrow>
   retry_loop cfg prim as last_error =
     (concat (map (failed_attempt cfg) as),
      Inl (if as = [] then last_error else Some (projl (prim (last as)))))"
proof (induction as arbitrary: last_error)
  case Nil
  then show ?case by simp
next
  case (Cons a as)
  then obtain e where e: "prim a = Inl e" by (cases "prim a") auto
  from Cons have "\<forall>a \<in> set as. isl (prim a)" by simp
  from Cons.IH [OF this, of "Some e"] e show ?case
    by (simp add: failed_attempt_def)
qed

lemma retry_loop_success:
  "(\<forall>a \<in> set pre. isl (prim a)) \<Longrightarrow> prim k = Inr r \<Longrightarrow>
   retry_loop cfg prim (pre @ k # post) last_error =
     (concat (map (failed_attempt cfg) pre) @ [Call (primary_engine (OCR_ENGINE cfg))], Inr r)"
proof (induction pre arbitrary: last_error)
  case Nil
  then show ?case by simp
next
  case (Cons a pre)
  then obtain e where e: "prim a = Inl e" by (cases "prim a") auto
  from Cons have "\<forall>a \<in> set pre. isl (prim a)" by simp
  from Cons.IH [OF this Cons.prems(2), of "Some e"] e show ?case
    by (simp add: failed_attempt_def)
qed

lemma in_attempts: "a \<in> set [i..<j] \<longleftrightarrow> i \<le> a \<and> a < j"
  by (simp only: set_upt atLeastLessThan_iff)

lemma attempts_split:
  assumes "1 \<le> k" and "k \<le> n + 1"
  shows "[1..<n + 2] = [1..<k] @ k # [Suc k..<n + 2]"
proof -
  from assms obtain m where m: "n + 2 = k + m" "0 < m"
    by (metis add_2_eq_Suc' add_Suc_right le_imp_less_Suc less_imp_add_positive Suc_eq_plus1)
  have "[1..<k + m] = [1..<k] @ [k..<k + m]"
    using assms(1) by (rule upt_add_eq_append)
  moreover have "[k..<k + m] = k # [Suc k..<k + m]"
    using m(2) by (simp add: upt_conv_Cons)
  ultimately show ?thesis unfolding m(1) by simp
qed

lemma process_success:
  assumes "1 \<le> k" and "k \<le> MAX_RETRIES cfg + 1"
    and "\<forall>a. 1 \<le> a \<and> a < k \<longrightarrow> isl (oracle (primary_engine (OCR_ENGINE cfg)) a)"
    and "oracle (primary_engine (OCR_ENGINE cfg)) k = Inr r"
  shows "process_single_image cfg oracle =
           (concat (map (failed_attempt cfg) [1..<k]) @ [Call (primary_engine (OCR_ENGINE cfg))], r)"
proof -
  have "\<forall>a \<in> set [1..<k]. isl (oracle (primary_engine (OCR_ENGINE cfg)) a)"
    using assms(3) by (auto simp only: in_attempts)
  from retry_loop_success [OF this assms(4)]
  show ?thesis
    unfolding process_single_image_def Let_def attempts_split [OF assms(1,2)]
    by simp
qed

lemma process_all_fail:
  assumes "\<forall>a. 1 \<le> a \<and> a \<le> MAX_RETRIES cfg + 1 \<longrightarrow>
             isl (oracle (primary_engine (OCR_ENGINE cfg)) a)"
  shows "process_single_image cfg oracle =
           (concat (map (failed_attempt cfg) [1..<MAX_RETRIES cfg + 2]) @
              (if use_fallback cfg then [Call Gemini] else []),
            if use_fallback cfg then
              (case oracle Gemini (if primary_engine (OCR_ENGINE cfg) = Gemini
                                   then MAX_RETRIES cfg + 2 else 1) of
                 Inr r \<Rightarrow> r
               | Inl e \<Rightarrow> error_result (Some e))
            else error_result
                   (Some (projl (oracle (primary_engine (OCR_ENGINE cfg)) (MAX_RETRIES cfg + 1)))))"
proof -
  have "\<forall>a \<in> set [1..<MAX_RETRIES cfg + 2]. isl (oracle (primary_engine (OCR_ENGINE cfg)) a)"
  proof
    fix a assume "a \<in> set [1..<MAX_RETRIES cfg + 2]"
    then have "1 \<le> a \<and> a \<le> MAX_RETRIES cfg + 1" unfolding in_attempts by arith
    with assms show "isl (oracle (primary_engine (OCR_ENGINE cfg)) a)" by blast
  qed
  from retry_loop_fail [OF this, of cfg None]
  have loop: "retry_loop cfg (oracle (primary_engine (OCR_ENGINE cfg))) [1..<MAX_RETRIES cfg + 2] None =
     (concat (map (failed_attempt cfg) [1..<MAX_RETRIES cfg + 2]),
      Inl (Some (projl (oracle (primary_engine (OCR_ENGINE cfg)) (MAX_RETRIES cfg + 1)))))"
    by simp
  show ?thesis
    unfolding process_single_image_def Let_def use_fallback_def loop
    by (simp split: sum.splits)
qed

lemma all_attempts_events:
  "concat (map (failed_attempt cfg) [1..<MAX_RETRIES cfg + 2]) =
     concat (map (\<lambda>a. [Call (primary_engine (OCR_ENGINE cfg)),
                        Sleep (RETRY_DELAY_SECONDS cfg * real a)]) [1..<MAX_RETRIES cfg + 1]) @
     [Call (primary_engine (OCR_ENGINE cfg))]"
proof -
  have 1: "[1..<MAX_RETRIES cfg + 2] = [1..<MAX_RETRIES cfg + 1] @ [MAX_RETRIES cfg + 1]"
    by simp
  have 2: "map (failed_attempt cfg) [1..<MAX_RETRIES cfg + 1] =
     map (\<lambda>a. [Call (primary_engine (OCR_ENGINE cfg)),
                Sleep (RETRY_DELAY_SECONDS cfg * real a)]) [1..<MAX_RETRIES cfg + 1]"
  proof (rule map_cong [OF refl])
    fix a assume "a \<in> set [1..<MAX_RETRIES cfg + 1]"
    then have "a \<le> MAX_RETRIES cfg" unfolding in_attempts by arith
    then show "failed_attempt cfg a =
                 [Call (primary_engine (OCR_ENGINE cfg)), Sleep (RETRY_DELAY_SECONDS cfg * real a)]"
      by (simp add: failed_attempt_def)
  qed
  have 3: "failed_attempt cfg (MAX_RETRIES cfg + 1) = [Call (primary_engine (OCR_ENGINE cfg))]"
    by (simp add: failed_attempt_def)
  show ?thesis unfolding 1 map_append concat_append 2 using 3 by simp
qed

lemma count_calls:
  "count_list (concat (map (\<lambda>a. [Call p, Sleep (d * real a)]) as)) (Call p) = length as"
  by (induction as) auto


lemma early_attempts_events:
  assumes "k \<le> MAX_RETRIES cfg + 1"
  shows "map (failed_attempt cfg) [1..<k] =
           map (\<lambda>a. [Call (primary_engine (OCR_ENGINE cfg)),
                      Sleep (RETRY_DELAY_SECONDS cfg * real a)]) [1..<k]"
proof (rule map_cong [OF refl])
  fix a assume "a \<in> set [1..<k]"
  then have "a \<le> MAX_RETRIES cfg" using assms unfolding in_attempts by arith
  then show "failed_attempt cfg a =
               [Call (primary_engine (OCR_ENGINE cfg)), Sleep (RETRY_DELAY_SECONDS cfg * real a)]"
    by (simp add: failed_attempt_def)
qed

text \<open>
  C4 (amended). For one unit the dispatcher attempts the primary strategy at most
  \<open>MAX_RETRIES + 1\<close> times and stops at the first attempt that returns: when attempt
  \<open>k\<close> is the first to succeed, the events are \<open>k - 1\<close> failed calls, each followed
  by a sleep of \<open>RETRY_DELAY_SECONDS * attempt\<close>, then the successful call, and its
  result is returned. When all \<open>MAX_RETRIES + 1\<close> attempts fail, the primary strategy
  was called exactly \<open>MAX_RETRIES + 1\<close> times with a sleep of
  \<open>RETRY_DELAY_SECONDS * attempt\<close> between consecutive attempts; then, if the fallback
  is enabled and the configured engine is not \<open>gemini\<close>, the vision model is called
  exactly once and its result returned if it has one; and when every attempt failed the
  result is the map with the last error message under \<open>_error\<close> and \<open>True\<close> under
  \<open>_partial\<close>. The function is total: no exception of an engine leaves it.
\<close>

theorem dispatcher_attempts:
  assumes p: "p = primary_engine (OCR_ENGINE cfg)"
    and n: "n = MAX_RETRIES cfg"
    and d: "d = RETRY_DELAY_SECONDS cfg"
  shows
    "(\<forall>k r. 1 \<le> k \<and> k \<le> n + 1 \<and> (\<forall>a. 1 \<le> a \<and> a < k \<longrightarrow> isl (oracle p a)) \<and>
            oracle p k = Inr r \<longrightarrow>
        process_single_image cfg oracle =
          (concat (map (\<lambda>a. [Call p, Sleep (d * real a)]) [1..<k]) @ [Call p], r)) \<and>
     ((\<forall>a. 1 \<le> a \<and> a \<le> n + 1 \<longrightarrow> isl (oracle p a)) \<longrightarrow>
        fst (process_single_image cfg oracle) =
          concat (map (\<lambda>a. [Call p, Sleep (d * real a)]) [1..<n + 1]) @ [Call p] @
          (if use_fallback cfg then [Call Gemini] else []) \<and>
        count_list (concat (map (\<lambda>a. [Call p, Sleep (d * real a)]) [1..<n + 1]) @ [Call p])
          (Call p) = n + 1 \<and>
        snd (process_single_image cfg oracle) =
          (if use_fallback cfg then
             (case oracle Gemini (if p = Gemini then n + 2 else 1) of
                Inr r \<Rightarrow> r
              | Inl e \<Rightarrow> error_result (Some e))
           else error_result (Some (projl (oracle p (n + 1)))))) \<and>
     (\<forall>e. error_result (Some e) ''_error'' = Some (PStr e) \<and>
          error_result (Some e) ''_partial'' = Some (PBool True))"
proof (intro conjI allI impI)
  fix k r
  assume a: "1 \<le> k \<and> k \<le> n + 1 \<and> (\<forall>a. 1 \<le> a \<and> a < k \<longrightarrow> isl (oracle p a)) \<and>
            oracle p k = Inr r"
  then have "process_single_image cfg oracle =
           (concat (map (failed_attempt cfg) [1..<k]) @ [Call (primary_engine (OCR_ENGINE cfg))], r)"
    unfolding p n by (intro process_success) auto
  moreover from a have "k \<le> MAX_RETRIES cfg + 1" unfolding n by simp
  ultimately show "process_single_image cfg oracle =
          (concat (map (\<lambda>a. [Call p, Sleep (d * real a)]) [1..<k]) @ [Call p], r)"
    unfolding p d by (simp only: early_attempts_events)
next
  assume a: "\<forall>a. 1 \<le> a \<and> a \<le> n + 1 \<longrightarrow> isl (oracle p a)"
  then have r: "process_single_image cfg oracle =
           (concat (map (failed_attempt cfg) [1..<MAX_RETRIES cfg + 2]) @
              (if use_fallback cfg then [Call Gemini] else []),
            if use_fallback cfg then
              (case oracle Gemini (if primary_engine (OCR_ENGINE cfg) = Gemini
                                   then MAX_RETRIES cfg + 2 else 1) of
                 Inr r \<Rightarrow> r
               | Inl e \<Rightarrow> error_result (Some e))
            else error_result
                   (Some (projl (oracle (primary_engine (OCR_ENGINE cfg)) (MAX_RETRIES cfg + 1)))))"
    unfolding p n by (rule process_all_fail)
  show "fst (process_single_image cfg oracle) =
          concat (map (\<lambda>a. [Call p, Sleep (d * real a)]) [1..<n + 1]) @ [Call p] @
          (if use_fallback cfg then [Call Gemini] else [])"
    unfolding r fst_conv all_attempts_events p n d by simp
  show "snd (process_single_image cfg oracle) =
          (if use_fallback cfg then
             (case oracle Gemini (if p = Gemini then n + 2 else 1) of
                Inr r \<Rightarrow> r
              | Inl e \<Rightarrow> error_result (Some e))
           else error_result (Some (projl (oracle p (n + 1)))))"
    unfolding r snd_conv p n by simp
next
  show "count_list (concat (map (\<lambda>a. [Call p, Sleep (d * real a)]) [1..<n + 1]) @ [Call p])
          (Call p) = n + 1"
    by (simp add: count_calls del: upt_Suc)
next
  fix e
  show "error_result (Some e) ''_error'' = Some (PStr e)"
    by (simp add: error_result_def)
  show "error_result (Some e) ''_partial'' = Some (PBool True)"
    by (simp add: error_result_def)
qed


theorem dispatcher_attempts_witness:
  "process_single_image tesseract_config second_ok =
     ([Call Tesseract, Sleep 1, Call Tesseract],
      [''document_type'' \<mapsto> PStr ''KTP'', ''nama'' \<mapsto> PStr ''BUDI'']) \<and>
   fst (process_single_image tesseract_config always_fail) =
     [Call Tesseract, Sleep 1, Call Tesseract, Sleep 2, Call Tesseract, Call Gemini] \<and>
   snd (process_single_image tesseract_config always_fail) = error_result (Some ''timeout'') \<and>
   error_result (Some ''timeout'') ''_error'' = Some (PStr ''timeout'') \<and>
   error_result (Some ''timeout'') ''_partial'' = Some (PBool True)"
proof -
  have p: "Tesseract = primary_engine (OCR_ENGINE tesseract_config)"
    by (simp add: tesseract_config_def default_config_def primary_engine_def)
  have n: "2 = MAX_RETRIES tesseract_config"
    by (simp add: tesseract_config_def default_config_def)
  have d: "1 = RETRY_DELAY_SECONDS tesseract_config"
    by (simp add: tesseract_config_def default_config_def)
  have fb: "use_fallback tesseract_config"
    by (simp add: use_fallback_def tesseract_config_def default_config_def)
  have u2: "[1..<2] = [1::nat]" by code_simp
  have u3: "[1..<2 + 1] = [1::nat, 2]" by code_simp
  have s: "(1::nat) \<le> 2 \<and> (2::nat) \<le> 2 + 1 \<and>
           (\<forall>a. 1 \<le> a \<and> a < 2 \<longrightarrow> isl (second_ok Tesseract a)) \<and>
           second_ok Tesseract 2 =
             Inr [''document_type'' \<mapsto> PStr ''KTP'', ''nama'' \<mapsto> PStr ''BUDI'']"
    by (auto simp: second_ok_def always_ok_def always_fail_def)
  have f: "\<forall>a. 1 \<le> a \<and> a \<le> 2 + 1 \<longrightarrow> isl (always_fail Tesseract a)"
    by (simp add: always_fail_def)
  from dispatcher_attempts [OF p n d, of second_ok] s
  have 1: "process_single_image tesseract_config second_ok =
     (concat (map (\<lambda>a. [Call Tesseract, Sleep (1 * real a)]) [1..<2]) @ [Call Tesseract],
      [''document_type'' \<mapsto> PStr ''KTP'', ''nama'' \<mapsto> PStr ''BUDI''])"
    by blast
  from dispatcher_attempts [OF p n d, of always_fail] f
  have 2: "fst (process_single_image tesseract_config always_fail) =
          concat (map (\<lambda>a. [Call Tesseract, Sleep (1 * real a)]) [1..<2 + 1]) @ [Call Tesseract] @
          (if use_fallback tesseract_config then [Call Gemini] else [])"
    and 3: "snd (process_single_image tesseract_config always_fail) =
          (if use_fallback tesseract_config then
             (case always_fail Gemini (if Tesseract = Gemini then 2 + 2 else 1) of
                Inr r \<Rightarrow> r
              | Inl e \<Rightarrow> error_result (Some e))
           else error_result (Some (projl (always_fail Tesseract (2 + 1)))))"
    and 4: "\<forall>e. error_result (Some e) ''_error'' = Some (PStr e) \<and>
          error_result (Some e) ''_partial'' = Some (PBool True)"
    by blast+
  have a: "process_single_image tesseract_config second_ok =
     ([Call Tesseract, Sleep 1, Call Tesseract],
      [''document_type'' \<mapsto> PStr ''KTP'', ''nama'' \<mapsto> PStr ''BUDI''])"
    unfolding 1 u2 by simp
  have b: "fst (process_single_image tesseract_config always_fail) =
     [Call Tesseract, Sleep 1, Call Tesseract, Sleep 2, Call Tesseract, Call Gemini]"
    unfolding 2 u3 using fb by simp
  have c: "snd (process_single_image tesseract_config always_fail) = error_result (Some ''timeout'')"
    unfolding 3 using fb by (simp add: always_fail_def)
  from a b c 4 show ?thesis by blast
qed

text \<open>
  With the default configuration (three attempts allowed) and an engine that returns at
  once, the primary strategy is attempted once, not three times.
\<close>

theorem dispatcher_first_success_counterexample:
  "MAX_RETRIES default_config + 1 = 3 \<and>
   fst (process_single_image default_config always_ok) = [Call Gemini] \<and>
   count_list (fst (process_single_image default_config always_ok)) (Call Gemini) = 1"
proof -
  have 1: "MAX_RETRIES default_config + 1 = 3" by (simp add: default_config_def)
  have u: "[1..<MAX_RETRIES default_config + 2] = [1, 2, 3]"
    unfolding default_config_def by code_simp
  have 2: "fst (process_single_image default_config always_ok) = [Call Gemini]"
    unfolding process_single_image_def Let_def u
    by (simp add: always_ok_def default_config_def primary_engine_def)
  from 1 2 show ?thesis by simp
qed

section \<open>The useful-data predicate in the two branches\<close>

lemma useful_items_filter:
  "useful_items ds = Some its \<Longrightarrow>
   map Some its = map doc_data_to_item (filter has_useful_data ds)"
proof (induction ds arbitrary: its)
  case Nil
  then show ?case by simp
next
  case (Cons d ds)
  then show ?case by (auto split: if_splits option.splits)
qed

text \<open>
  The PDF branch applies the predicate: on a miss, the items of a successful result are
  the conversions of exactly the page results that have useful data.
\<close>

lemma pdf_items_useful_only:
  assumes "map_of (cache c) file_hash = None"
    and "process_one_pdf c t_get t_put file_hash (Inr page_results) = (c', r)"
    and "success r"
  shows "map Some (items r) = map doc_data_to_item (filter has_useful_data page_results)"
  using assms
  by (auto simp: process_one_pdf_def cache_get_def failed_def Let_def
      dest: useful_items_filter split: option.splits if_splits)

text \<open>
  C2. The claim is that a result failing the useful-data predicate is never stored in the
  cache and never reaches the merge stage, for images as for PDF pages. The branch for
  images does not apply the predicate: for the image result \<open>blank_doc\<close>, which has no
  useful data, the cache holds an entry afterwards and the unit succeeds with one item,
  while the same result as the only page of a PDF is neither stored nor returned. For
  \<open>visa_date_doc\<close>, which has no useful data either, the item passes \<open>clean_entry\<close>
  and is in the input of \<open>fuzzy_merge_data\<close>.
\<close>

theorem image_result_without_useful_data:
  "\<not> has_useful_data blank_doc \<and>
   keys (fst (process_one_image empty_cache 0 1 ''h'' blank_doc)) = [''h''] \<and>
   success (snd (process_one_image empty_cache 0 1 ''h'' blank_doc)) \<and>
   length (items (snd (process_one_image empty_cache 0 1 ''h'' blank_doc))) = 1 \<and>
   keys (fst (process_one_pdf empty_cache 0 1 ''h'' (Inr [blank_doc]))) = [] \<and>
   items (snd (process_one_pdf empty_cache 0 1 ''h'' (Inr [blank_doc]))) = [] \<and>
   \<not> has_useful_data visa_date_doc \<and>
   length (sanitize (collect [] (snd (process_one_image empty_cache 0 1 ''h'' visa_date_doc)))) = 1"
proof -
  have 1: "\<not> has_useful_data blank_doc" by (simp add: has_useful_data_def blank_doc_def)
  have 2: "keys (fst (process_one_image empty_cache 0 1 ''h'' blank_doc)) = [''h'']" by code_simp
  have 3: "success (snd (process_one_image empty_cache 0 1 ''h'' blank_doc))" by code_simp
  have 4: "length (items (snd (process_one_image empty_cache 0 1 ''h'' blank_doc))) = 1" by code_simp
  have 5: "keys (fst (process_one_pdf empty_cache 0 1 ''h'' (Inr [blank_doc]))) = []" by code_simp
  have 6: "items (snd (process_one_pdf empty_cache 0 1 ''h'' (Inr [blank_doc]))) = []" by code_simp
  have 7: "\<not> has_useful_data visa_date_doc" by (simp add: has_useful_data_def visa_date_doc_def)
  have 8: "length (sanitize (collect [] (snd (process_one_image empty_cache 0 1 ''h'' visa_date_doc)))) = 1"
    by code_simp
  from 1 2 3 4 5 6 7 8 show ?thesis by blast
qed

end
